theory Spec2Isabelle
  imports Main
begin

section \<open>Python values, exceptions and text\<close>

text \<open>
  The exceptions of the model. The first five are the built-in exceptions that the
  source can raise (from \<open>range\<close>, \<open>datetime.date\<close>, string formatting, \<open>*\<close> and
  attribute access). \<open>MissingRequiredSection\<close> and \<open>InvalidTargetValue\<close> are the typed
  failures named by the error taxonomy of the specification; the source defines no such
  exception class and no function below returns them.
\<close>

datatype error =
    TypeError
  | ValueError
  | AttributeError
  | OverflowError
  | KeyError
  | MissingRequiredSection
  | InvalidTargetValue int string

text \<open>
  A Python float is an IEEE 754 double: \<open>Finite s m e\<close> stands for
  \<open>(-1)^s * m * 2^e\<close> with \<open>m < 2^53\<close> and \<open>-1074 \<le> e \<le> 971\<close>.
\<close>

datatype pyfloat = Finite bool nat int | Infinity bool | NaN

text \<open>The values a target mapping can hold at run time (the annotations are not enforced).\<close>

datatype pyval = PNone | PInt int | PFloat pyfloat | PStr string

definition bind_err :: "error + 'a \<Rightarrow> ('a \<Rightarrow> error + 'b) \<Rightarrow> error + 'b" where
  "bind_err r f = (case r of Inl e \<Rightarrow> Inl e | Inr v \<Rightarrow> f v)"

text \<open>Text is kept as UTF-8 bytes; the three non-ASCII characters of the templates:\<close>

definition nb_hyphen :: string where
  "nb_hyphen = [CHR 0xE2, CHR 0x80, CHR 0x91]"

definition en_dash :: string where
  "en_dash = [CHR 0xE2, CHR 0x80, CHR 0x93]"

definition em_dash :: string where
  "em_dash = [CHR 0xE2, CHR 0x80, CHR 0x94]"

fun join :: "string \<Rightarrow> string list \<Rightarrow> string" where
  "join sep [] = []"
| "join sep [x] = x"
| "join sep (x # y # ys) = x @ sep @ join sep (y # ys)"

definition replace_char :: "char \<Rightarrow> char \<Rightarrow> string \<Rightarrow> string" where
  "replace_char old new s = map (\<lambda>c. if c = old then new else c) s"

subsection \<open>Decimal text of integers\<close>

definition digit_char :: "nat \<Rightarrow> char" where
  "digit_char d = ''0123456789'' ! d"

function nat_str :: "nat \<Rightarrow> string" where
  "nat_str n = (if n < 10 then [digit_char n] else nat_str (n div 10) @ [digit_char (n mod 10)])"
  by pat_completeness auto
termination
  by (relation "measure id") auto

declare nat_str.simps [simp del]

definition int_str :: "int \<Rightarrow> string" where
  "int_str i = (if i < 0 then CHR ''-'' # nat_str (nat (- i)) else nat_str (nat i))"

text \<open>Zero padding of \<open>%02d\<close> and \<open>%04d\<close> (non-negative arguments only).\<close>

definition zero_pad :: "nat \<Rightarrow> nat \<Rightarrow> string" where
  "zero_pad w n = replicate (w - length (nat_str n)) CHR ''0'' @ nat_str n"

text \<open>The \<open>,\<close> option of a format specification: groups of three digits from the right.\<close>

fun commas_rev :: "string \<Rightarrow> string" where
  "commas_rev (a # b # c # d # ds) = a # b # c # CHR '','' # commas_rev (d # ds)"
| "commas_rev ds = ds"

definition group_thousands :: "string \<Rightarrow> string" where
  "group_thousands ds = rev (commas_rev (rev ds))"

subsection \<open>Doubles: rounding to nearest, ties to even\<close>

definition round_half_even_div :: "nat \<Rightarrow> nat \<Rightarrow> nat" where
  "round_half_even_div n d =
     (let q = n div d; r = n mod d
      in if d < 2 * r \<or> (2 * r = d \<and> odd q) then q + 1 else q)"

function bit_length :: "nat \<Rightarrow> nat" where
  "bit_length n = (if n = 0 then 0 else Suc (bit_length (n div 2)))"
  by pat_completeness auto
termination
  by (relation "measure id") auto

declare bit_length.simps [simp del]

text \<open>
  \<open>float_round s m e\<close> is the double nearest to \<open>(-1)^s * m * 2^e\<close> for any natural
  \<open>m\<close> and \<open>-1074 \<le> e\<close>: the mantissa is cut to 53 bits, a carry out of the mantissa
  moves the exponent, and a result beyond the largest double is infinite.
\<close>

definition float_round :: "bool \<Rightarrow> nat \<Rightarrow> int \<Rightarrow> pyfloat" where
  "float_round s m e =
     (let shift = bit_length m - 53;
          m1 = round_half_even_div m (2 ^ shift);
          e1 = e + int shift;
          m2 = (if m1 = 2 ^ 53 then 2 ^ 52 else m1);
          e2 = (if m1 = 2 ^ 53 then e1 + 1 else e1)
      in if 971 < e2 then Infinity s else Finite s m2 e2)"

text \<open>\<open>float(i)\<close> for an integer, as \<open>int.__format__\<close> does before formatting with \<open>f\<close>.\<close>

definition int_to_float :: "int \<Rightarrow> error + pyfloat" where
  "int_to_float i =
     (case float_round (i < 0) (nat \<bar>i\<bar>) 0 of
        Infinity s \<Rightarrow> Inl OverflowError
      | f \<Rightarrow> Inr f)"

definition float_mul_100 :: "pyfloat \<Rightarrow> pyfloat" where
  "float_mul_100 x =
     (case x of
        Finite s m e \<Rightarrow> float_round s (m * 100) e
      | Infinity s \<Rightarrow> Infinity s
      | NaN \<Rightarrow> NaN)"

text \<open>The magnitude of a finite double rounded to an integer, ties to even.\<close>

definition float_round_int :: "nat \<Rightarrow> int \<Rightarrow> nat" where
  "float_round_int m e =
     (if 0 \<le> e then m * 2 ^ nat e else round_half_even_div m (2 ^ nat (- e)))"

text \<open>\<open>format(x, '.0f')\<close> and, with grouping, \<open>format(x, ',.0f')\<close> for a float \<open>x\<close>.\<close>

definition float_format_f0 :: "bool \<Rightarrow> pyfloat \<Rightarrow> string" where
  "float_format_f0 grouping x =
     (case x of
        NaN \<Rightarrow> ''nan''
      | Infinity s \<Rightarrow> (if s then ''-inf'' else ''inf'')
      | Finite s m e \<Rightarrow>
          (let ds = nat_str (float_round_int m e)
           in (if s then ''-'' else []) @ (if grouping then group_thousands ds else ds)))"

subsection \<open>The operations the narrative applies to a target value\<close>

text \<open>\<open>value * 100\<close>.\<close>

definition py_times_100 :: "pyval \<Rightarrow> error + pyval" where
  "py_times_100 v =
     (case v of
        PNone \<Rightarrow> Inl TypeError
      | PInt i \<Rightarrow> Inr (PInt (i * 100))
      | PFloat x \<Rightarrow> Inr (PFloat (float_mul_100 x))
      | PStr s \<Rightarrow> Inr (PStr (concat (replicate 100 s))))"

text \<open>\<open>f"{value:.0f}"\<close> and \<open>f"{value:,.0f}"\<close>.\<close>

definition format_f0 :: "bool \<Rightarrow> pyval \<Rightarrow> error + string" where
  "format_f0 grouping v =
     (case v of
        PNone \<Rightarrow> Inl TypeError
      | PStr s \<Rightarrow> Inl ValueError
      | PInt i \<Rightarrow> bind_err (int_to_float i) (\<lambda>x. Inr (float_format_f0 grouping x))
      | PFloat x \<Rightarrow> Inr (float_format_f0 grouping x))"

text \<open>
  \<open>repr\<close> of a float (the shortest digits that read back as the same double) is not
  modelled: it is left unspecified, and nothing below depends on what it returns.
\<close>

definition float_repr :: "pyfloat \<Rightarrow> string" where
  "float_repr = (SOME r. True)"

text \<open>\<open>f"{value}"\<close>, that is \<open>str(value)\<close>.\<close>

definition py_str :: "pyval \<Rightarrow> string" where
  "py_str v =
     (case v of
        PNone \<Rightarrow> ''None''
      | PInt i \<Rightarrow> int_str i
      | PFloat x \<Rightarrow> float_repr x
      | PStr s \<Rightarrow> s)"

section \<open>Dates: the proleptic Gregorian calendar of \<open>datetime.date\<close>\<close>

record date =
  year :: int
  month :: int
  day :: int

definition MINYEAR :: int where "MINYEAR = 1"
definition MAXYEAR :: int where "MAXYEAR = 9999"
definition MAXORDINAL :: int where "MAXORDINAL = 3652059"

definition is_leap :: "int \<Rightarrow> bool" where
  "is_leap y = (y mod 4 = 0 \<and> (y mod 100 \<noteq> 0 \<or> y mod 400 = 0))"

definition days_before_year :: "int \<Rightarrow> int" where
  "days_before_year yr = (let y = yr - 1 in y * 365 + y div 4 - y div 100 + y div 400)"

definition DAYS_IN_MONTH :: "int list" where
  "DAYS_IN_MONTH = [-1, 31, 28, 31, 30, 31, 30, 31, 31, 30, 31, 30, 31]"

definition DAYS_BEFORE_MONTH :: "int list" where
  "DAYS_BEFORE_MONTH = [-1, 0, 31, 59, 90, 120, 151, 181, 212, 243, 273, 304, 334]"

definition days_in_month :: "int \<Rightarrow> int \<Rightarrow> int" where
  "days_in_month y m = (if m = 2 \<and> is_leap y then 29 else DAYS_IN_MONTH ! nat m)"

definition days_before_month :: "int \<Rightarrow> int \<Rightarrow> int" where
  "days_before_month y m = DAYS_BEFORE_MONTH ! nat m + (if 2 < m \<and> is_leap y then 1 else 0)"

definition ymd2ord :: "int \<Rightarrow> int \<Rightarrow> int \<Rightarrow> int" where
  "ymd2ord y m d = days_before_year y + days_before_month y m + d"

definition ord2ymd :: "int \<Rightarrow> date" where
  "ord2ymd n0 =
     (let n = n0 - 1;
          n400 = n div 146097; n = n mod 146097;
          n100 = n div 36524; n = n mod 36524;
          n4 = n div 1461; n = n mod 1461;
          n1 = n div 365; n = n mod 365;
          yr = n400 * 400 + 1 + n100 * 100 + n4 * 4 + n1
      in if n1 = 4 \<or> n100 = 4 then \<lparr>year = yr - 1, month = 12, day = 31\<rparr>
         else
           (let leapyear = (n1 = 3 \<and> (n4 \<noteq> 24 \<or> n100 = 3));
                m = (n + 50) div 32;
                preceding = DAYS_BEFORE_MONTH ! nat m + (if 2 < m \<and> leapyear then 1 else 0);
                m' = (if n < preceding then m - 1 else m);
                preceding' =
                  (if n < preceding
                   then preceding - (DAYS_IN_MONTH ! nat (m - 1) + (if m - 1 = 2 \<and> leapyear then 1 else 0))
                   else preceding)
            in \<lparr>year = yr, month = m', day = n - preceding' + 1\<rparr>))"

text \<open>The arguments of \<open>datetime.date\<close> are read as C integers.\<close>

definition c_int_fits :: "int \<Rightarrow> bool" where
  "c_int_fits v = (- (2 ^ 31) \<le> v \<and> v < 2 ^ 31)"

text \<open>
  \<open>datetime.date(y, m, d)\<close>: an argument that does not fit a C integer raises
  \<open>OverflowError\<close>; then the fields are checked, and a bad one raises \<open>ValueError\<close>.
\<close>

definition date_new :: "int \<Rightarrow> int \<Rightarrow> int \<Rightarrow> error + date" where
  "date_new y m d =
     (if \<not> (c_int_fits y \<and> c_int_fits m \<and> c_int_fits d) then Inl OverflowError
      else if \<not> (MINYEAR \<le> y \<and> y \<le> MAXYEAR) then Inl ValueError
      else if \<not> (1 \<le> m \<and> m \<le> 12) then Inl ValueError
      else if \<not> (1 \<le> d \<and> d \<le> days_in_month y m) then Inl ValueError
      else Inr \<lparr>year = y, month = m, day = d\<rparr>)"

definition toordinal :: "date \<Rightarrow> int" where
  "toordinal dt = ymd2ord (year dt) (month dt) (day dt)"

text \<open>\<open>datetime.timedelta(days=n)\<close>: the number of days, bounded by 999999999.\<close>

definition timedelta_days :: "int \<Rightarrow> error + int" where
  "timedelta_days n = (if \<bar>n\<bar> \<le> 999999999 then Inr n else Inl OverflowError)"

text \<open>\<open>date + timedelta\<close>: a result outside the calendar raises \<open>OverflowError\<close>.\<close>

definition date_add :: "date \<Rightarrow> int \<Rightarrow> error + date" where
  "date_add dt days =
     (let ord = toordinal dt + days
      in if 0 < ord \<and> ord \<le> MAXORDINAL then Inr (ord2ymd ord) else Inl OverflowError)"

definition isoformat :: "date \<Rightarrow> string" where
  "isoformat dt =
     zero_pad 4 (nat (year dt)) @ ''-'' @ zero_pad 2 (nat (month dt)) @ ''-'' @ zero_pad 2 (nat (day dt))"

text \<open>\<open>range(start, stop, step)\<close> as a list; a zero step raises \<open>ValueError\<close>.\<close>

definition range_len :: "int \<Rightarrow> int \<Rightarrow> int \<Rightarrow> nat" where
  "range_len start stop step =
     (if 0 < step \<and> start < stop then nat ((stop - start - 1) div step + 1)
      else if step < 0 \<and> stop < start then nat ((start - stop - 1) div (- step) + 1)
      else 0)"

definition py_range :: "int \<Rightarrow> int \<Rightarrow> int \<Rightarrow> error + int list" where
  "py_range start stop step =
     (if step = 0 then Inl ValueError
      else Inr (map (\<lambda>k. start + int k * step) [0..<range_len start stop step]))"

section \<open>The planning agent\<close>

text \<open>
  A \<open>dict\<close> is an association list in insertion order. The fields follow the dataclass
  \<open>StrategicPlanningAgent\<close>; \<open>start_year\<close> defaults to the current year and is a plain
  field here.
\<close>

type_synonym yearly = "(int \<times> pyval) list"

record agent =
  company_name :: string
  mission :: string
  vision :: string
  core_values :: "string list"
  baseline_metrics :: "(string \<times> pyval) list"
  revenue_targets :: yearly
  customer_targets :: yearly
  margin_targets :: yearly
  other_targets :: "(string \<times> yearly) list"
  revenue_moves :: "string list"
  profit_moves :: "string list"
  swot :: "(string \<times> string list) list option"
  start_year :: int

text \<open>\<open>d.get(k)\<close>: the value, or \<open>None\<close> for a missing key.\<close>

definition dict_get :: "('k \<times> pyval) list \<Rightarrow> 'k \<Rightarrow> pyval" where
  "dict_get d k = (case map_of d k of None \<Rightarrow> PNone | Some v \<Rightarrow> v)"

text \<open>\<open>d.get(k, default)\<close>.\<close>

definition dict_get_default :: "('k \<times> 'v) list \<Rightarrow> 'k \<Rightarrow> 'v \<Rightarrow> 'v" where
  "dict_get_default d k dflt = (case map_of d k of None \<Rightarrow> dflt | Some v \<Rightarrow> v)"

text \<open>\<open>d[k]\<close>: a missing key raises \<open>KeyError\<close>.\<close>

definition subscript :: "('k \<times> 'v) list \<Rightarrow> 'k \<Rightarrow> error + 'v" where
  "subscript d k = (case map_of d k of None \<Rightarrow> Inl KeyError | Some v \<Rightarrow> Inr v)"

text \<open>
  Storing a key: an existing key keeps its place and takes the new value, a new key goes
  to the end.
\<close>

fun dict_set :: "'k \<Rightarrow> 'v \<Rightarrow> ('k \<times> 'v) list \<Rightarrow> ('k \<times> 'v) list" where
  "dict_set k v [] = [(k, v)]"
| "dict_set k v ((k', v') # kvs) = (if k' = k then (k, v) # kvs else (k', v') # dict_set k v kvs)"

definition set_targets :: "agent \<Rightarrow> yearly \<Rightarrow> yearly \<Rightarrow> yearly \<Rightarrow> (string \<times> yearly) list option \<Rightarrow> agent" where
  "set_targets self rt ct mt ot =
     (let self1 = self\<lparr>revenue_targets := rt, customer_targets := ct, margin_targets := mt\<rparr>
      in case ot of
           None \<Rightarrow> self1
         | Some d \<Rightarrow> (if d = [] then self1 else self1\<lparr>other_targets := d\<rparr>))"

definition identify_winning_moves :: "agent \<Rightarrow> string list \<Rightarrow> string list \<Rightarrow> agent" where
  "identify_winning_moves self rm pm = self\<lparr>revenue_moves := rm, profit_moves := pm\<rparr>"

definition create_swot :: "agent \<Rightarrow> string list \<Rightarrow> string list \<Rightarrow> string list \<Rightarrow> string list \<Rightarrow> agent" where
  "create_swot self strengths weaknesses opportunities threats =
     self\<lparr>swot := Some [(''strengths'', strengths), (''weaknesses'', weaknesses),
                        (''opportunities'', opportunities), (''threats'', threats)]\<rparr>"

subsection \<open>Milestones\<close>

definition milestone_name :: "int \<Rightarrow> int \<Rightarrow> int \<Rightarrow> string" where
  "milestone_name i months_per_milestone year_offset =
     ''Milestone '' @ int_str (i div months_per_milestone + 1) @ '' '' @ en_dash @ '' Year ''
       @ int_str year_offset"

text \<open>The body of the loop over \<open>range(0, total_months, months_per_milestone)\<close>.\<close>

fun milestones_loop :: "date \<Rightarrow> int \<Rightarrow> int list \<Rightarrow> error + (date \<times> string) list" where
  "milestones_loop start_date mpm [] = Inr []"
| "milestones_loop start_date mpm (i # rest) =
     bind_err (timedelta_days (30 * i)) (\<lambda>delta.
     bind_err (date_add start_date delta) (\<lambda>dt.
       let year_offset = (year dt - year start_date) + 1
       in bind_err (milestones_loop start_date mpm rest) (\<lambda>ms.
            Inr ((dt, milestone_name i mpm year_offset) # ms))))"

definition total_months :: int where
  "total_months = 36"

definition generate_milestones :: "agent \<Rightarrow> int \<Rightarrow> error + (date \<times> string) list" where
  "generate_milestones self months_per_milestone =
     bind_err (date_new (start_year self) 1 1) (\<lambda>start_date.
     bind_err (py_range 0 total_months months_per_milestone) (\<lambda>offsets.
       milestones_loop start_date months_per_milestone offsets))"

subsection \<open>The static catalogues\<close>

record provider =
  provider_name :: string
  provider_features :: "string list"
  provider_notes :: string

definition suggest_kpis :: "(string \<times> string list) list" where
  "suggest_kpis =
     [(''financial'',
       [''Annual revenue'',
        ''Gross margin'',
        ''Net profit'',
        ''EBITDA'',
        ''Cash burn rate'',
        ''Runway (months of operating cash)'']),
      (''customer'',
       [''Number of customers'',
        ''Customer acquisition cost (CAC)'',
        ''Customer lifetime value (LTV)'',
        ''Churn rate'',
        ''Net promoter score (NPS)'']),
      (''marketing'',
       [''Website traffic'',
        ''Leads generated'',
        ''Conversion rate'',
        ''Cost per lead'',
        ''Social media engagement'']),
      (''operations'',
       [''Product/service delivery time'',
        ''Defect/return rate'',
        ''Operational efficiency (output per employee)'',
        ''Inventory turnover rate'',
        ''On'' @ nb_hyphen @ ''time project completion percentage'']),
      (''hr'',
       [''Employee retention rate'',
        ''Employee satisfaction score'',
        ''Time to hire'',
        ''Diversity ratio'',
        ''AI adoption in HR processes''])]"

definition recommend_services :: "(string \<times> provider list) list" where
  "recommend_services =
     [(''legal'',
       [\<lparr>provider_name = ''LegalZoom'',
          provider_features = [''Unlimited legal consultations'',
                      ''Annual business evaluation'',
                      ''150+ legal forms''],
          provider_notes = ''Top overall online legal service for startups, offering incorporation, intellectual property and compliance support''\<rparr>,
        \<lparr>provider_name = ''Firstbase.io'',
          provider_features = [''Automated compliance reminders'',
                      ''Registered agent service'',
                      ''Annual reports and franchise tax filings''],
          provider_notes = ''Best for startup incorporation and compliance bundles''\<rparr>,
        \<lparr>provider_name = ''Rocket Lawyer'',
          provider_features = [''On'' @ nb_hyphen @ ''call attorneys'',
                      ''Customizable legal forms'',
                      ''Document defence''],
          provider_notes = ''Best for complex legal issues and access to attorneys''\<rparr>,
        \<lparr>provider_name = ''Clerky'',
          provider_features = [''Variety of fundraising documents'',
                      ''Pay'' @ nb_hyphen @ ''per'' @ nb_hyphen @ ''use filing''],
          provider_notes = ''Best for fundraising and accurate legal paperwork''\<rparr>]),
      (''payroll'',
       [\<lparr>provider_name = ''Gusto'',
          provider_features = [''Automatic federal, state and local tax filing'',
                      ''Unlimited payroll runs'',
                      ''State new'' @ nb_hyphen @ ''hire reporting'',
                      ''PTO and holiday pay''],
          provider_notes = ''Full'' @ nb_hyphen @ ''service payroll for small businesses''\<rparr>,
        \<lparr>provider_name = ''Wave Payroll'',
          provider_features = [''Full service payroll with tax filing in selected states'',
                      ''Self'' @ nb_hyphen @ ''service option for other states'',
                      ''Integration with Wave accounting''],
          provider_notes = ''Payroll add'' @ nb_hyphen @ ''on to the free Wave accounting platform''\<rparr>,
        \<lparr>provider_name = ''OnPay'',
          provider_features = [''Digital document storage'',
                      ''HR compliance tracking'',
                      ''Integration with QuickBooks and Xero''],
          provider_notes = ''Best for recordkeeping and HR compliance''\<rparr>,
        \<lparr>provider_name = ''Rippling'',
          provider_features = [''Automated payroll processing'',
                      ''Integration with HR, IT and benefits'',
                      ''500+ third'' @ nb_hyphen @ ''party tool integrations''],
          provider_notes = ''Best for startups wanting seamless payroll and HR integration''\<rparr>]),
      (''accounting'',
       [\<lparr>provider_name = ''Brex'',
          provider_features = [''Automatic expense categorization'',
                      ''Real'' @ nb_hyphen @ ''time spend tracking'',
                      ''Customizable approval workflows'',
                      ''Detailed financial reporting'',
                      ''1000+ software integrations''],
          provider_notes = ''All'' @ nb_hyphen @ ''in'' @ nb_hyphen @ ''one expense management and accounting platform tailored for startups''\<rparr>,
        \<lparr>provider_name = ''QuickBooks Online'',
          provider_features = [''Automated bank feeds'',
                      ''Customizable invoicing'',
                      ''Expense tracking with receipt capture'',
                      ''Inventory management'',
                      ''40+ reporting templates''],
          provider_notes = ''Industry'' @ nb_hyphen @ ''standard cloud accounting solution with extensive integrations''\<rparr>,
        \<lparr>provider_name = ''Xero'',
          provider_features = [''Bank reconciliation with machine learning'',
                      ''Customizable invoicing'',
                      ''Project costing and time tracking'',
                      ''Inventory tracking'',
                      ''Multi'' @ nb_hyphen @ ''currency support''],
          provider_notes = ''User'' @ nb_hyphen @ ''friendly cloud accounting system with strong international support''\<rparr>,
        \<lparr>provider_name = ''Sage Intacct'',
          provider_features = [''Revenue recognition automation'',
                      ''Multi'' @ nb_hyphen @ ''entity management'',
                      ''Customizable reporting'',
                      ''Project accounting'',
                      ''AI'' @ nb_hyphen @ ''powered timesheets''],
          provider_notes = ''Best for complex or multi'' @ nb_hyphen @ ''entity startups requiring GAAP/IFRS compliance''\<rparr>,
        \<lparr>provider_name = ''Wave Accounting'',
          provider_features = [''Free double'' @ nb_hyphen @ ''entry bookkeeping'',
                      ''Customizable invoicing'',
                      ''Receipt scanning'',
                      ''Basic financial reports'',
                      ''Multi'' @ nb_hyphen @ ''currency support''],
          provider_notes = ''Best free accounting software for small teams and freelancers''\<rparr>]),
      (''marketing'',
       [\<lparr>provider_name = ''HubSpot Marketing'',
          provider_features = [''CRM integration'',
                      ''Marketing automation'',
                      ''Email and social media management'',
                      ''Lead scoring'',
                      ''Analytics and reporting''],
          provider_notes = ''Comprehensive platform that combines marketing, sales and service tools''\<rparr>,
        \<lparr>provider_name = ''Canva'',
          provider_features = [''Drag'' @ nb_hyphen @ ''and'' @ nb_hyphen @ ''drop design editor'',
                      ''Templates and stock media'',
                      ''Logo maker'',
                      ''Animation and video creation'',
                      ''Collaboration tools''],
          provider_notes = ''Easy graphics creation for branding, content and presentations''\<rparr>,
        \<lparr>provider_name = ''Google Analytics'',
          provider_features = [''Website traffic insights'',
                      ''Goal and conversion tracking'',
                      ''Audience segmentation'',
                      ''Reporting dashboards'',
                      ''Integration with advertising platforms''],
          provider_notes = ''Essential tool for understanding website performance and user behaviour''\<rparr>,
        \<lparr>provider_name = ''Mailchimp or Klaviyo'',
          provider_features = [''Email marketing automation'',
                      ''Personalized campaigns'',
                      ''Segmentation and A/B testing'',
                      ''Analytics'',
                      ''Ecommerce integrations''],
          provider_notes = ''Popular platforms for email marketing and customer engagement''\<rparr>,
        \<lparr>provider_name = ''Buffer or Hootsuite'',
          provider_features = [''Social media scheduling'',
                      ''Multi'' @ nb_hyphen @ ''platform posting'',
                      ''Engagement tracking'',
                      ''Analytics'',
                      ''Team collaboration''],
          provider_notes = ''Tools to plan and analyse social media content''\<rparr>]),
      (''hr_ai'',
       [\<lparr>provider_name = ''AI'' @ nb_hyphen @ ''powered HR tools'',
          provider_features = [''Automated candidate screening'',
                      ''Chatbots for recruiting'',
                      ''Predictive analytics for flight risks'',
                      ''Sentiment analysis for engagement'',
                      ''Personalized learning and development''],
          provider_notes = ''AI boosts HR productivity and enables proactive talent management; studies report a 63'' @ [CHR 0xC2, CHR 0xA0] @ ''% productivity boost and 55'' @ [CHR 0xC2, CHR 0xA0] @ ''% automation of manual tasks'' @ [CHR 0xE3, CHR 0x80, CHR 0x90] @ ''179547689127451'' @ [CHR 0xE2, CHR 0x80, CHR 0xA0] @ ''L129-L149'' @ [CHR 0xE3, CHR 0x80, CHR 0x91]\<rparr>])]"

subsection \<open>Plan assembly\<close>

type_synonym row = "(string \<times> pyval) list"

record company_profile =
  profile_name :: string
  profile_mission :: string
  profile_vision :: string
  profile_core_values :: "string list"

record winning_moves =
  moves_revenue :: "string list"
  moves_profit :: "string list"

record milestone =
  milestone_date :: string
  description :: string

text \<open>The dictionary that \<open>build_plan\<close> returns, one field for each of its keys.\<close>

record plan =
  executive_summary :: string
  plan_company_profile :: company_profile
  plan_baseline_metrics :: "(string \<times> pyval) list"
  strategic_targets :: "row list"
  plan_winning_moves :: winning_moves
  swot_analysis :: "(string \<times> string list) list option"
  milestones :: "milestone list"
  recommended_kpis :: "(string \<times> string list) list"
  service_recommendations :: "(string \<times> provider list) list"

text \<open>\<open>sorted(set(...))\<close> over the keys of the three main target mappings.\<close>

definition plan_years :: "agent \<Rightarrow> int list" where
  "plan_years self =
     sort (remdups (map fst (revenue_targets self) @ map fst (customer_targets self)
                      @ map fst (margin_targets self)))"

text \<open>
  One entry of \<open>targets_summary\<close>: the four fixed keys, then every extra metric stored
  over them by the \<open>**\<close> unpacking.
\<close>

definition target_row :: "agent \<Rightarrow> int \<Rightarrow> row" where
  "target_row self yr =
     fold (\<lambda>(metric, vals). dict_set metric (dict_get vals yr)) (other_targets self)
       [(''year'', PInt yr),
        (''revenue'', dict_get (revenue_targets self) yr),
        (''customers'', dict_get (customer_targets self) yr),
        (''gross_margin'', dict_get (margin_targets self) yr)]"

definition build_plan :: "agent \<Rightarrow> error + plan" where
  "build_plan self =
     (let years = plan_years self;
          targets_summary = map (target_row self) years
      in bind_err (generate_milestones self 6) (\<lambda>ms.
           Inr \<lparr>executive_summary =
                  company_name self @ '' aims to realise its vision of '' @ vision self
                    @ '' by executing a three'' @ nb_hyphen
                    @ ''year plan built around SMART goals, clear milestones and disciplined measurement.'',
                plan_company_profile =
                  \<lparr>profile_name = company_name self, profile_mission = mission self,
                   profile_vision = vision self, profile_core_values = core_values self\<rparr>,
                plan_baseline_metrics = baseline_metrics self,
                strategic_targets = targets_summary,
                plan_winning_moves =
                  \<lparr>moves_revenue = revenue_moves self, moves_profit = profit_moves self\<rparr>,
                swot_analysis = swot self,
                milestones =
                  map (\<lambda>(dt, nm). \<lparr>milestone_date = isoformat dt, description = nm\<rparr>) ms,
                recommended_kpis = suggest_kpis,
                service_recommendations = recommend_services\<rparr>))"

subsection \<open>The narrative\<close>

definition fixed_keys :: "string list" where
  "fixed_keys = [''year'', ''revenue'', ''customers'', ''gross_margin'']"

text \<open>The first entry of \<open>lines\<close>: the sentence for the year, revenue, customers and margin.\<close>

definition target_sentence :: "row \<Rightarrow> error + string" where
  "target_sentence t =
     bind_err (subscript t ''year'') (\<lambda>y.
     bind_err (subscript t ''revenue'') (\<lambda>r.
     bind_err (format_f0 True r) (\<lambda>rs.
     bind_err (subscript t ''customers'') (\<lambda>c.
     bind_err (subscript t ''gross_margin'') (\<lambda>g.
     bind_err (py_times_100 g) (\<lambda>g100.
     bind_err (format_f0 False g100) (\<lambda>gs.
       Inr (''In '' @ py_str y @ '', we aim to generate $'' @ rs @ '' in revenue and serve ''
              @ py_str c @ '' customers, achieving a gross margin of '' @ gs @ ''%''))))))))"

text \<open>The inner loop over \<open>t.items()\<close>: one clause for every key that is not a fixed one.\<close>

fun extra_clauses :: "row \<Rightarrow> error + string list" where
  "extra_clauses [] = Inr []"
| "extra_clauses ((metric, v) # rest) =
     (if metric \<notin> set fixed_keys
      then bind_err (format_f0 True v) (\<lambda>vs.
           bind_err (extra_clauses rest) (\<lambda>cs.
             Inr ((''with '' @ replace_char CHR ''_'' CHR '' '' metric @ '' of $'' @ vs) # cs)))
      else extra_clauses rest)"

definition target_line :: "row \<Rightarrow> error + string" where
  "target_line t =
     bind_err (target_sentence t) (\<lambda>s.
     bind_err (extra_clauses t) (\<lambda>cs.
       Inr (join '' '' (s # cs) @ ''.'')))"

fun targets_lines :: "row list \<Rightarrow> error + string list" where
  "targets_lines [] = Inr []"
| "targets_lines (t # ts) =
     bind_err (target_line t) (\<lambda>l.
     bind_err (targets_lines ts) (\<lambda>ls. Inr (l # ls)))"

definition targets_paragraph :: "row list \<Rightarrow> error + string" where
  "targets_paragraph rows = bind_err (targets_lines rows) (\<lambda>ls. Inr (join '' '' ls))"

definition intro :: "agent \<Rightarrow> string" where
  "intro self =
     company_name self @ '' exists to '' @ mission self @ ''.  Our vision is to '' @ vision self
       @ ''. To achieve this ambition, we have created a three'' @ nb_hyphen
       @ ''year strategic plan grounded in our core values: ''
       @ join '', '' (core_values self) @ ''.''"

definition moves_paragraph :: "agent \<Rightarrow> string" where
  "moves_paragraph self =
     ''To realise these goals, we will pursue a focused set of Winning Moves. ''
       @ ''On the revenue side we will: '' @ join ''; '' (revenue_moves self) @ ''. ''
       @ ''On the profitability side we will: '' @ join ''; '' (profit_moves self) @ ''.''"

text \<open>\<open>self.swot.get(...)\<close>: with \<open>swot\<close> still \<open>None\<close> the attribute lookup raises.\<close>

definition swot_paragraph :: "agent \<Rightarrow> error + string" where
  "swot_paragraph self =
     (case swot self of
        None \<Rightarrow> Inl AttributeError
      | Some sw \<Rightarrow>
          Inr (''Our SWOT analysis reveals that our strengths'' @ em_dash
                 @ join '', '' (dict_get_default sw ''strengths'' [])
                 @ em_dash @ ''position us well to capitalise on opportunities such as ''
                 @ join '', '' (dict_get_default sw ''opportunities'' [])
                 @ ''.  However, we must mitigate weaknesses like ''
                 @ join '', '' (dict_get_default sw ''weaknesses'' [])
                 @ '' and guard against threats such as ''
                 @ join '', '' (dict_get_default sw ''threats'' []) @ ''.''))"

definition execution_paragraph :: string where
  "execution_paragraph =
     ''We will execute against clear milestones every six months and monitor key performance indicators across finance, customers, marketing, operations and HR. ''
       @ ''Our plan leverages best'' @ nb_hyphen @ ''in'' @ nb_hyphen
       @ ''class service providers for legal, accounting, payroll, marketing and AI'' @ nb_hyphen
       @ ''enabled HR to build a strong operational foundation.''"

definition closing :: "agent \<Rightarrow> string" where
  "closing self =
     ''By aligning our team around this roadmap and measuring our progress relentlessly, ''
       @ company_name self @ '' will be well positioned to achieve its three'' @ nb_hyphen
       @ ''year objectives and move closer to its long'' @ nb_hyphen @ ''term vision.''"

definition generate_narrative :: "agent \<Rightarrow> error + string" where
  "generate_narrative self =
     bind_err (build_plan self) (\<lambda>p.
     bind_err (targets_paragraph (strategic_targets p)) (\<lambda>tp.
     bind_err (swot_paragraph self) (\<lambda>sp.
       Inr (join [CHR 0x0A, CHR 0x0A]
              [intro self, tp, moves_paragraph self, sp, execution_paragraph, closing self]))))"

section \<open>The HTTP endpoint \<open>/generate_plan\<close>\<close>

text \<open>The payload as \<open>request.get_json\<close> returns it.\<close>

datatype json =
    JNull
  | JBool bool
  | JInt int
  | JFloat pyfloat
  | JStr string
  | JArr "json list"
  | JObj "(string \<times> json) list"

text \<open>\<open>x.get(key, default)\<close>: only a \<open>dict\<close> has the method.\<close>

definition json_get :: "json \<Rightarrow> string \<Rightarrow> json \<Rightarrow> error + json" where
  "json_get x k dflt =
     (case x of
        JObj kvs \<Rightarrow> Inr (case map_of kvs k of None \<Rightarrow> dflt | Some v \<Rightarrow> v)
      | _ \<Rightarrow> Inl AttributeError)"

text \<open>Truth value, as \<open>if x:\<close> and \<open>any\<close> test it.\<close>

definition truthy :: "json \<Rightarrow> bool" where
  "truthy x =
     (case x of
        JNull \<Rightarrow> False
      | JBool b \<Rightarrow> b
      | JInt i \<Rightarrow> i \<noteq> 0
      | JFloat f \<Rightarrow> (case f of Finite s m e \<Rightarrow> m \<noteq> 0 | _ \<Rightarrow> True)
      | JStr s \<Rightarrow> s \<noteq> []
      | JArr xs \<Rightarrow> xs \<noteq> []
      | JObj kvs \<Rightarrow> kvs \<noteq> [])"

text \<open>
  The methods of \<open>StrategicPlanningAgent\<close>, each with the number of parameters after
  \<open>self\<close> that have no default and the number that have one.
\<close>

definition agent_methods :: "(string \<times> nat \<times> nat) list" where
  "agent_methods =
     [(''set_targets'', 3, 1),
      (''identify_winning_moves'', 2, 0),
      (''create_swot'', 4, 0),
      (''suggest_kpis'', 0, 0),
      (''generate_milestones'', 0, 1),
      (''recommend_services'', 0, 0),
      (''build_plan'', 0, 0),
      (''generate_narrative'', 0, 0)]"

text \<open>
  Calling \<open>agent.method(args)\<close> with positional arguments: an unknown method raises
  \<open>AttributeError\<close>, a wrong number of arguments raises \<open>TypeError\<close>, both before
  the body of the method runs.
\<close>

definition call_method :: "string \<Rightarrow> nat \<Rightarrow> error + unit" where
  "call_method method nargs =
     (case map_of agent_methods method of
        None \<Rightarrow> Inl AttributeError
      | Some (required, optional) \<Rightarrow>
          (if required \<le> nargs \<and> nargs \<le> required + optional then Inr () else Inl TypeError))"

text \<open>The loop over \<open>["year1", "year2", "year3"]\<close> that builds \<open>targets\<close>.\<close>

fun targets_loop :: "json \<Rightarrow> string list \<Rightarrow> error + json list" where
  "targets_loop targets_input [] = Inr []"
| "targets_loop targets_input (year_key # rest) =
     bind_err (json_get targets_input year_key (JObj [])) (\<lambda>year_data.
     bind_err (json_get year_data ''revenue'' JNull) (\<lambda>r.
     bind_err (json_get year_data ''customers'' JNull) (\<lambda>c.
     bind_err (json_get year_data ''margin'' JNull) (\<lambda>m.
     bind_err (targets_loop targets_input rest) (\<lambda>ts.
       Inr (JObj [(''revenue_target'', r), (''customer_target'', c), (''margin_target'', m)] # ts))))))"

text \<open>
  The body of the \<open>try\<close> block. The assignments to the attributes of the shared agent
  cannot raise and do not reach the response; they are left out. Every call on the agent
  is made with the arguments the handler passes.
\<close>

definition generate_plan_try :: "json \<Rightarrow> error + unit" where
  "generate_plan_try data =
     bind_err (json_get data ''company_name'' (JStr ''Your Company'')) (\<lambda>company_name.
     bind_err (json_get data ''mission'' (JStr [])) (\<lambda>mission.
     bind_err (json_get data ''vision'' (JStr [])) (\<lambda>vision.
     bind_err (json_get data ''core_values'' (JArr [])) (\<lambda>core_values.
     bind_err (json_get data ''targets'' (JObj [])) (\<lambda>targets_input.
     bind_err (targets_loop targets_input [''year1'', ''year2'', ''year3'']) (\<lambda>targets.
     bind_err (json_get data ''winning_moves'' (JArr [])) (\<lambda>winning_moves.
     bind_err (json_get data ''swot'' (JObj [])) (\<lambda>swot.
     bind_err (json_get swot ''strengths'' (JArr [])) (\<lambda>strengths.
     bind_err (json_get swot ''weaknesses'' (JArr [])) (\<lambda>weaknesses.
     bind_err (json_get swot ''opportunities'' (JArr [])) (\<lambda>opportunities.
     bind_err (json_get swot ''threats'' (JArr [])) (\<lambda>threats.
     bind_err (json_get data ''baseline_metrics'' (JObj [])) (\<lambda>baseline_metrics.
     bind_err (call_method ''set_targets'' 1) (\<lambda>_.
     bind_err (if truthy winning_moves then call_method ''add_winning_moves'' 1 else Inr ()) (\<lambda>_.
     bind_err (if truthy strengths \<or> truthy weaknesses \<or> truthy opportunities \<or> truthy threats
               then call_method ''add_swot'' 4 else Inr ()) (\<lambda>_.
     bind_err (call_method ''assemble_plan'' 1) (\<lambda>_.
     bind_err (call_method ''generate_narrative'' 1) (\<lambda>_.
       Inr ()))))))))))))))))))"

text \<open>
  The response: the HTTP status and the record. The success record would hold the plan
  and the narrative returned by the calls above.
\<close>

datatype response_record = RequestMustBeJson | FailedToGeneratePlan error | PlanAndNarrative

definition generate_plan :: "bool \<Rightarrow> json \<Rightarrow> nat \<times> response_record" where
  "generate_plan is_json data =
     (if \<not> is_json then (400, RequestMustBeJson)
      else case generate_plan_try data of
             Inl exc \<Rightarrow> (500, FailedToGeneratePlan exc)
           | Inr _ \<Rightarrow> (200, PlanAndNarrative))"

section \<open>Example inputs\<close>

text \<open>
  The doubles written \<open>0.2\<close>, \<open>0.35\<close> and \<open>0.4\<close> in Python, that is
  \<open>0x1.999999999999ap-3\<close>, \<open>0x1.6666666666666p-2\<close> and \<open>0x1.999999999999ap-2\<close>.
\<close>

definition float_0_2 :: pyfloat where
  "float_0_2 = Finite False 7205759403792794 (-55)"

definition float_0_35 :: pyfloat where
  "float_0_35 = Finite False 6305039478318694 (-54)"

definition float_0_4 :: pyfloat where
  "float_0_4 = Finite False 7205759403792794 (-54)"

text \<open>The end-to-end scenario, for a start year \<open>sy\<close>.\<close>

definition acme :: "int \<Rightarrow> agent" where
  "acme sy =
     \<lparr>company_name = ''Acme'', mission = ''build widgets'', vision = ''best widgets'',
      core_values = [''Integrity''], baseline_metrics = [],
      revenue_targets = [(2025, PInt 1000000)],
      customer_targets = [(2025, PInt 100)],
      margin_targets = [(2025, PFloat float_0_2)],
      other_targets = [],
      revenue_moves = [''Launch X''], profit_moves = [''Cut costs''],
      swot = Some [(''strengths'', [''brand'']), (''weaknesses'', [''small team'']),
                   (''opportunities'', [''market growth'']), (''threats'', [''competition''])],
      start_year = sy\<rparr>"

text \<open>
  The scenario with two planned years and a net profit target for the first year only.
\<close>

definition acme_gap :: agent where
  "acme_gap =
     (acme 2025)
       \<lparr>revenue_targets := [(2025, PInt 1000000), (2026, PInt 2000000)],
        customer_targets := [(2025, PInt 100), (2026, PInt 200)],
        margin_targets := [(2025, PFloat float_0_2), (2026, PFloat float_0_35)],
        other_targets := [(''net_profit'', [(2025, PInt 500000)])]\<rparr>"

text \<open>The scenario with a net profit target for 2025 and for a year that has no other target.\<close>

definition acme_extra_year :: agent where
  "acme_extra_year =
     (acme 2025)\<lparr>other_targets := [(''net_profit'', [(2025, PInt 500000), (2026, PInt 750000)])]\<rparr>"

text \<open>The scenario with a revenue target that is a string.\<close>

definition acme_text_revenue :: agent where
  "acme_text_revenue = (acme 2025)\<lparr>revenue_targets := [(2025, PStr ''one million'')]\<rparr>"

text \<open>The scenario before \<open>create_swot\<close> was called.\<close>

definition acme_no_swot :: agent where
  "acme_no_swot = (acme 2025)\<lparr>swot := None\<rparr>"


text \<open>
  \<open>nearest_double x num den\<close>: \<open>x\<close> is a positive normal double less than half a
  unit in the last place away from \<open>num / den\<close>, hence the double that the decimal
  literal denotes.
\<close>

definition nearest_double :: "pyfloat \<Rightarrow> nat \<Rightarrow> nat \<Rightarrow> bool" where
  "nearest_double x num den =
     (case x of
        Finite s m e \<Rightarrow>
          \<not> s \<and> 2 ^ 52 \<le> m \<and> m < 2 ^ 53 \<and> e < 0
            \<and> 2 * \<bar>int m * int den - int num * 2 ^ nat (- e)\<bar> < int den
      | _ \<Rightarrow> False)"

text \<open>
  What the specification asks of the number formatting, to be compared with the code.
  \<open>nearest_even n num den\<close>: the integer \<open>n\<close> is the one nearest to \<open>num / den\<close>,
  with a tie going to the even neighbour.
\<close>

definition nearest_even :: "nat \<Rightarrow> nat \<Rightarrow> nat \<Rightarrow> bool" where
  "nearest_even n num den =
     (2 * \<bar>int n * int den - int num\<bar> \<le> int den
      \<and> (2 * \<bar>int n * int den - int num\<bar> = int den \<longrightarrow> even n))"

text \<open>\<open>rounds_to n m e\<close>: \<open>n\<close> is \<open>m * 2^e\<close> rounded to zero decimal places.\<close>

definition rounds_to :: "nat \<Rightarrow> nat \<Rightarrow> int \<Rightarrow> bool" where
  "rounds_to n m e =
     (if 0 \<le> e then n = m * 2 ^ nat e else nearest_even n m (2 ^ nat (- e)))"

text \<open>
  \<open>product_100 m e m' e'\<close>: the double \<open>m' * 2^e'\<close> is \<open>100 * (m * 2^e)\<close> rounded to a
  53-bit mantissa, exactly or to the nearest mantissa of the binade, ties to even.
\<close>

definition product_100 :: "nat \<Rightarrow> int \<Rightarrow> nat \<Rightarrow> int \<Rightarrow> bool" where
  "product_100 m e m' e' =
     (e \<le> e' \<and> m' < 2 ^ 53 \<and> nearest_even m' (100 * m) (2 ^ nat (e' - e))
      \<and> (e' = e \<or> 2 ^ 52 \<le> m'))"

text \<open>The number that a string of decimal digits denotes.\<close>

definition digit_value :: "char \<Rightarrow> nat" where
  "digit_value c = of_char c - 48"

definition digits_value :: "string \<Rightarrow> nat" where
  "digits_value ds = foldl (\<lambda>a c. 10 * a + digit_value c) 0 ds"

section \<open>Evaluation rules\<close>

lemmas float_eval =
  float_mul_100_def float_round_def bit_length.simps round_half_even_div_def
  float_format_f0_def float_round_int_def nat_str.simps digit_char_def group_thousands_def
  int_to_float_def Let_def

lemmas value_eval =
  bind_err_def py_times_100_def format_f0_def py_str_def int_str_def subscript_def

lemmas date_eval =
  date_new_def c_int_fits_def MINYEAR_def MAXYEAR_def MAXORDINAL_def days_in_month_def DAYS_IN_MONTH_def
  days_before_month_def DAYS_BEFORE_MONTH_def days_before_year_def is_leap_def ymd2ord_def
  ord2ymd_def toordinal_def timedelta_days_def date_add_def

section \<open>The literals of the examples\<close>

lemma float_literals:
  "nearest_double float_0_2 2 10"
  "nearest_double float_0_35 35 100"
  "nearest_double float_0_4 4 10"
  by (simp_all add: nearest_double_def float_0_2_def float_0_35_def float_0_4_def)

section \<open>The endpoint never succeeds\<close>

lemma call_set_targets: "call_method ''set_targets'' 1 = Inl TypeError"
  by (simp add: call_method_def agent_methods_def)

lemma bind_set_targets: "bind_err (call_method ''set_targets'' 1) f = Inl TypeError"
  unfolding bind_err_def call_set_targets by simp

lemma json_get_error: "json_get x k d = Inl e \<Longrightarrow> e = AttributeError"
  by (cases x) (simp_all add: json_get_def)

lemma targets_loop_error: "targets_loop ti ks = Inl e \<Longrightarrow> e = AttributeError"
  by (induction ks arbitrary: e)
     (auto simp: bind_err_def split: sum.splits dest: json_get_error)

lemma bind_json_get_fails:
  assumes "\<And>v. \<exists>e. f v = Inl e \<and> (e = AttributeError \<or> e = TypeError)"
  shows "\<exists>e. bind_err (json_get x k d) f = Inl e \<and> (e = AttributeError \<or> e = TypeError)"
  using assms by (cases "json_get x k d") (auto simp: bind_err_def dest: json_get_error)

lemma bind_targets_loop_fails:
  assumes "\<And>v. \<exists>e. f v = Inl e \<and> (e = AttributeError \<or> e = TypeError)"
  shows "\<exists>e. bind_err (targets_loop ti ks) f = Inl e \<and> (e = AttributeError \<or> e = TypeError)"
  using assms by (cases "targets_loop ti ks") (auto simp: bind_err_def dest: targets_loop_error)

lemma generate_plan_try_fails:
  "\<exists>exc. generate_plan_try data = Inl exc \<and> (exc = AttributeError \<or> exc = TypeError)"
  unfolding generate_plan_try_def
  by (intro bind_json_get_fails bind_targets_loop_fails) (simp only: bind_set_targets, simp)

lemma generate_plan_empty_object:
  "generate_plan True (JObj []) = (500, FailedToGeneratePlan TypeError)"
  by (simp add: generate_plan_def generate_plan_try_def json_get_def bind_err_def
        call_method_def agent_methods_def)

text \<open>
  C4: for every parsed JSON payload the body of the \<open>try\<close> block raises, at the latest in
  \<open>agent.set_targets(targets)\<close>, which passes one argument where three are required
  (\<open>TypeError\<close>); a payload of the wrong shape raises \<open>AttributeError\<close> even earlier.
  The handler therefore always answers with status 500 and the error record, never with
  the record holding the plan and the narrative.
\<close>

theorem generate_plan_always_500:
  "\<exists>exc. generate_plan True data = (500, FailedToGeneratePlan exc)
          \<and> (exc = AttributeError \<or> exc = TypeError)"
  using generate_plan_try_fails [of data] by (auto simp: generate_plan_def)

section \<open>Number formatting in the narrative\<close>

lemma round_half_even_div_nearest:
  assumes "0 < d"
  shows "nearest_even (round_half_even_div n d) n d"
proof -
  define q where "q = n div d"
  define r where "r = n mod d"
  have n: "int n = int q * int d + int r"
    unfolding q_def r_def by (metis div_mult_mod_eq of_nat_add of_nat_mult)
  have r: "int r < int d"
    unfolding r_def using assms by simp
  have q1: "int (q + 1) * int d = int q * int d + int d"
    by (simp add: algebra_simps)
  show ?thesis
  proof (cases "d < 2 * r \<or> (2 * r = d \<and> odd q)")
    case True
    then have "round_half_even_div n d = q + 1"
      by (simp add: round_half_even_div_def q_def r_def Let_def)
    moreover have "2 * \<bar>int (q + 1) * int d - int n\<bar> \<le> int d"
      unfolding q1 n using r True by auto
    moreover have "2 * \<bar>int (q + 1) * int d - int n\<bar> = int d \<longrightarrow> even (q + 1)"
      unfolding q1 n using r True by auto
    ultimately show ?thesis
      by (simp only: nearest_even_def)
  next
    case False
    then have "round_half_even_div n d = q"
      by (simp add: round_half_even_div_def q_def r_def Let_def)
    moreover have "2 * \<bar>int q * int d - int n\<bar> \<le> int d"
      unfolding n using r False by auto
    moreover have "2 * \<bar>int q * int d - int n\<bar> = int d \<longrightarrow> even q"
      unfolding n using r False by auto
    ultimately show ?thesis
      by (simp only: nearest_even_def)
  qed
qed

lemma round_half_even_div_1:
  "round_half_even_div n 1 = n" "round_half_even_div n (Suc 0) = n"
  by (simp_all add: round_half_even_div_def)

lemma round_half_even_div_bounds:
  "n div d \<le> round_half_even_div n d" "round_half_even_div n d \<le> n div d + 1"
  by (simp_all add: round_half_even_div_def Let_def)

lemma bit_length_step: "n \<noteq> 0 \<Longrightarrow> bit_length n = Suc (bit_length (n div 2))"
  by (subst bit_length.simps) simp

lemma bit_length_0: "bit_length 0 = 0"
  by (subst bit_length.simps) simp

lemma bit_length_lower: "0 < n \<Longrightarrow> 2 ^ (bit_length n - 1) \<le> n"
proof (induction n rule: bit_length.induct)
  case (1 n)
  from "1.prems" have n: "n \<noteq> 0" by simp
  have bl: "bit_length n - 1 = bit_length (n div 2)"
    by (simp only: bit_length_step [OF n] diff_Suc_1)
  show ?case
  proof (cases "n div 2 = 0")
    case True
    have "bit_length n - 1 = 0"
      by (simp only: bl True bit_length_0)
    then have "(2::nat) ^ (bit_length n - 1) = 1"
      by (simp only: power_0)
    then show ?thesis using "1.prems" by linarith
  next
    case False
    then have pos: "0 < n div 2" by simp
    have ih: "2 ^ (bit_length (n div 2) - 1) \<le> n div 2"
      by (rule "1.IH" [OF n pos])
    have "bit_length (n div 2) = Suc (bit_length (n div 2) - 1)"
      by (simp only: bit_length_step [OF False] diff_Suc_1)
    then have p: "(2::nat) ^ bit_length (n div 2) = 2 * 2 ^ (bit_length (n div 2) - 1)"
      by (metis power_Suc)
    have "(2::nat) ^ (bit_length n - 1) = 2 ^ bit_length (n div 2)"
      by (simp only: bl)
    also have "\<dots> = 2 * 2 ^ (bit_length (n div 2) - 1)"
      by (rule p)
    also have "\<dots> \<le> 2 * (n div 2)"
      using ih by (rule mult_le_mono2)
    also have "\<dots> \<le> n"
      by simp
    finally show ?thesis .
  qed
qed


lemma bit_length_upper: "n < 2 ^ bit_length n"
proof (induction n rule: bit_length.induct)
  case (1 n)
  show ?case
  proof (cases "n = 0")
    case True
    then show ?thesis by (simp add: bit_length_0)
  next
    case False
    have "n div 2 < 2 ^ bit_length (n div 2)" by (rule "1.IH" [OF False])
    then have "n < 2 * 2 ^ bit_length (n div 2)" by linarith
    then show ?thesis by (simp only: bit_length_step [OF False] power_Suc)
  qed
qed

lemma bit_length_le: "n < 2 ^ k \<Longrightarrow> bit_length n \<le> k"
proof (rule ccontr)
  assume a: "n < 2 ^ k" and b: "\<not> bit_length n \<le> k"
  have "n \<noteq> 0"
  proof
    assume "n = 0"
    with b show False by (simp add: bit_length_0)
  qed
  then have "2 ^ (bit_length n - 1) \<le> n" by (intro bit_length_lower) simp
  moreover have "(2::nat) ^ k \<le> 2 ^ (bit_length n - 1)"
    using b by (intro power_increasing) auto
  ultimately show False using a by linarith
qed

lemma float_round_exact:
  assumes "m < 2 ^ 53" "e \<le> 971"
  shows "float_round s m e = Finite s m e"
proof -
  have "bit_length m - 53 = 0"
    using bit_length_le [OF assms(1)] by simp
  then show ?thesis
    using assms by (simp add: float_round_def Let_def round_half_even_div_1)
qed

lemma nearest_even_exact: "nearest_even n n 1" "nearest_even n n (Suc 0)"
  by (simp_all add: nearest_even_def)

lemma float_round_correct:
  assumes "M < 2 ^ 60" "e \<le> 963"
  shows "\<exists>m' e'. float_round s M e = Finite s m' e' \<and> e \<le> e' \<and> m' < 2 ^ 53
           \<and> nearest_even m' M (2 ^ nat (e' - e)) \<and> (e' = e \<or> 2 ^ 52 \<le> m')"
proof (cases "bit_length M \<le> 53")
  case True
  have "M < 2 ^ bit_length M" by (rule bit_length_upper)
  also have "(2::nat) ^ bit_length M \<le> 2 ^ 53"
    using True by (intro power_increasing) auto
  finally have M: "M < 2 ^ 53" .
  have "float_round s M e = Finite s M e"
    using M assms(2) by (intro float_round_exact) auto
  then show ?thesis
    using M by (auto simp: nearest_even_exact)
next
  case False
  define shift where "shift = bit_length M - 53"
  define m1 where "m1 = round_half_even_div M (2 ^ shift)"
  have bl: "bit_length M = 53 + shift" and shift: "0 < shift"
    using False by (simp_all add: shift_def)
  have "bit_length M \<le> 60" by (rule bit_length_le [OF assms(1)])
  then have shift7: "shift \<le> 7" by (simp add: shift_def)
  have ne: "nearest_even m1 M (2 ^ shift)"
    unfolding m1_def by (rule round_half_even_div_nearest) simp
  have "M < 2 ^ (53 + shift)"
    using bit_length_upper [of M] by (simp only: bl)
  then have "M < 2 ^ 53 * 2 ^ shift" by (simp only: power_add)
  then have "M div 2 ^ shift < 2 ^ 53" by (rule less_mult_imp_div_less)
  then have hi: "m1 \<le> 2 ^ 53"
    using round_half_even_div_bounds(2) [of M "2 ^ shift"] unfolding m1_def by linarith
  have "M \<noteq> 0"
  proof
    assume "M = 0"
    with False show False by (simp add: bit_length_0)
  qed
  then have "2 ^ (bit_length M - 1) \<le> M" by (intro bit_length_lower) simp
  then have "2 ^ (52 + shift) \<le> M" by (simp add: bl)
  then have "2 ^ 52 * 2 ^ shift \<le> M" by (simp only: power_add)
  then have "2 ^ 52 \<le> M div 2 ^ shift"
    by (simp add: less_eq_div_iff_mult_less_eq)
  then have lo: "2 ^ 52 \<le> m1"
    using round_half_even_div_bounds(1) [of M "2 ^ shift"] unfolding m1_def by linarith
  show ?thesis
  proof (cases "m1 = 2 ^ 53")
    case True
    have fr: "float_round s M e = Finite s (2 ^ 52) (e + int shift + 1)"
      using True assms(2) shift7
      by (simp add: float_round_def Let_def shift_def [symmetric] m1_def [symmetric])
    have "2 * \<bar>int m1 * int (2 ^ shift) - int M\<bar> \<le> int (2 ^ shift)"
      using ne by (simp only: nearest_even_def)
    moreover have "int ((2::nat) ^ 52) * int (2 ^ (shift + 1)) = int m1 * int (2 ^ shift)"
      by (simp add: True)
    moreover have "int ((2::nat) ^ shift) < int (2 ^ (shift + 1))"
      by simp
    ultimately have "nearest_even (2 ^ 52) M (2 ^ (shift + 1))"
      by (simp only: nearest_even_def) (intro conjI impI, linarith, simp)
    moreover have "nat (e + int shift + 1 - e) = shift + 1" by simp
    ultimately show ?thesis
      by (simp only: fr) auto
  next
    case False
    have fr: "float_round s M e = Finite s m1 (e + int shift)"
      using False assms(2) shift7
      by (simp add: float_round_def Let_def shift_def [symmetric] m1_def [symmetric])
    have "nat (e + int shift - e) = shift" by simp
    then show ?thesis
      using False hi lo ne by (simp only: fr) auto
  qed
qed

lemma float_round_int_rounds: "rounds_to (float_round_int m e) m e"
  by (simp add: rounds_to_def float_round_int_def round_half_even_div_nearest)

lemma float_mul_100_correct:
  assumes "m < 2 ^ 53" "e \<le> 963"
  shows "\<exists>m' e'. float_mul_100 (Finite s m e) = Finite s m' e' \<and> product_100 m e m' e'"
proof -
  have "m * 100 < 2 ^ 60" using assms(1) by simp
  from float_round_correct [OF this assms(2), of s] show ?thesis
    by (auto simp: float_mul_100_def product_100_def mult.commute)
qed

lemma margin_text_float:
  assumes "m < 2 ^ 53" "e \<le> 963"
  shows "\<exists>m' e' n. float_mul_100 (Finite s m e) = Finite s m' e' \<and> product_100 m e m' e'
           \<and> rounds_to n m' e'
           \<and> bind_err (py_times_100 (PFloat (Finite s m e))) (format_f0 False) =
               Inr ((if s then ''-'' else []) @ nat_str n)"
proof -
  obtain m' e' where p: "float_mul_100 (Finite s m e) = Finite s m' e'" "product_100 m e m' e'"
    using float_mul_100_correct [OF assms] by blast
  have "bind_err (py_times_100 (PFloat (Finite s m e))) (format_f0 False) =
          Inr ((if s then ''-'' else []) @ nat_str (float_round_int m' e'))"
    by (simp add: bind_err_def py_times_100_def format_f0_def p(1) float_format_f0_def Let_def)
  then show ?thesis
    using p float_round_int_rounds by blast
qed

lemma format_f0_int:
  assumes "\<bar>i\<bar> < 2 ^ 53"
  shows "format_f0 grouping (PInt i) =
           Inr ((if i < 0 then ''-'' else [])
                  @ (if grouping then group_thousands (nat_str (nat \<bar>i\<bar>))
                     else nat_str (nat \<bar>i\<bar>)))"
proof -
  have "nat \<bar>i\<bar> < 2 ^ 53" using assms by (simp add: nat_less_iff)
  then have "float_round (i < 0) (nat \<bar>i\<bar>) 0 = Finite (i < 0) (nat \<bar>i\<bar>) 0"
    by (intro float_round_exact) auto
  then show ?thesis
    by (simp add: format_f0_def int_to_float_def bind_err_def float_format_f0_def
          float_round_int_def Let_def)
qed

lemma margin_text_int:
  assumes "\<bar>i * 100\<bar> < 2 ^ 53"
  shows "bind_err (py_times_100 (PInt i)) (format_f0 False) =
           Inr ((if i < 0 then ''-'' else []) @ nat_str (nat \<bar>i * 100\<bar>))"
  using format_f0_int [OF assms, of False]
  by (simp add: bind_err_def py_times_100_def mult_less_0_iff)

lemma revenue_text_float:
  "\<exists>n. rounds_to n m e
      \<and> format_f0 True (PFloat (Finite s m e)) =
          Inr ((if s then ''-'' else []) @ group_thousands (nat_str n))"
  using float_round_int_rounds [of m e]
  by (auto simp: format_f0_def float_format_f0_def Let_def)


lemma digit_char_cases:
  assumes "d < 10"
  shows "digit_value (digit_char d) = d" "digit_char d \<in> set ''0123456789''"
        "digit_char d \<noteq> CHR '',''"
proof -
  from assms have "d = 0 \<or> d = 1 \<or> d = 2 \<or> d = 3 \<or> d = 4 \<or> d = 5 \<or> d = 6
    \<or> d = 7 \<or> d = 8 \<or> d = 9"
    by arith
  then have "digit_value (digit_char d) = d \<and> digit_char d \<in> set ''0123456789''
               \<and> digit_char d \<noteq> CHR '',''"
    by (elim disjE) (simp_all add: digit_char_def digit_value_def)
  then show "digit_value (digit_char d) = d" "digit_char d \<in> set ''0123456789''"
        "digit_char d \<noteq> CHR '',''"
    by blast+
qed

lemma nat_str_small: "n < 10 \<Longrightarrow> nat_str n = [digit_char n]"
  by (subst nat_str.simps) simp

lemma nat_str_big: "\<not> n < 10 \<Longrightarrow> nat_str n = nat_str (n div 10) @ [digit_char (n mod 10)]"
  by (subst nat_str.simps) simp

lemma digits_value_snoc: "digits_value (ds @ [c]) = 10 * digits_value ds + digit_value c"
  by (simp add: digits_value_def)

lemma nat_str_digits:
  "set (nat_str n) \<subseteq> set ''0123456789''" "digits_value (nat_str n) = n"
  "CHR '','' \<notin> set (nat_str n)" "nat_str n \<noteq> []"
proof (induction n rule: nat_str.induct)
  case (1 n)
  {
    case 1
    show ?case
    proof (cases "n < 10")
      case True
      then show ?thesis using digit_char_cases(2) [OF True] by (simp add: nat_str_small)
    next
      case False
      have "n mod 10 < 10" by simp
      from digit_char_cases(2) [OF this] "1.IH"(1) [OF False] show ?thesis
        by (simp add: nat_str_big [OF False])
    qed
  next
    case 2
    show ?case
    proof (cases "n < 10")
      case True
      then show ?thesis
        using digit_char_cases(1) [OF True] by (simp add: nat_str_small digits_value_def)
    next
      case False
      have "n mod 10 < 10" by simp
      from digit_char_cases(1) [OF this] "1.IH"(2) [OF False] show ?thesis
        by (simp add: nat_str_big [OF False] digits_value_snoc)
    qed
  next
    case 3
    show ?case
    proof (cases "n < 10")
      case True
      then show ?thesis using digit_char_cases(3) [OF True] by (simp add: nat_str_small)
    next
      case False
      have "n mod 10 < 10" by simp
      from digit_char_cases(3) [OF this] "1.IH"(3) [OF False] show ?thesis
        by (simp add: nat_str_big [OF False])
    qed
  next
    case 4
    show ?case
      by (cases "n < 10") (simp_all add: nat_str_small nat_str_big)
  }
qed

lemma commas_rev_filter:
  "CHR '','' \<notin> set ds \<Longrightarrow> filter (\<lambda>c. c \<noteq> CHR '','') (commas_rev ds) = ds"
  by (induction ds rule: commas_rev.induct) auto

lemma commas_rev_length: "length (commas_rev ds) = length ds + (length ds - 1) div 3"
  by (induction ds rule: commas_rev.induct) auto

lemma commas_rev_nth:
  "CHR '','' \<notin> set ds \<Longrightarrow> j < length (commas_rev ds)
     \<Longrightarrow> (commas_rev ds ! j = CHR '','') = (j mod 4 = 3)"
proof (induction ds arbitrary: j rule: commas_rev.induct)
  case (1 a b c d ds)
  have "j = 0 \<or> j = 1 \<or> j = 2 \<or> j = 3 \<or> 4 \<le> j" by arith
  then consider "j = 0" | "j = 1" | "j = 2" | "j = 3" | j' where "j = j' + 4"
    using le_Suc_ex [of 4 j] by (auto simp: add.commute)
  then show ?case
  proof cases
    case 5
    have "commas_rev (a # b # c # d # ds) ! j = commas_rev (d # ds) ! j'"
      by (simp add: 5)
    moreover have "(commas_rev (d # ds) ! j' = CHR '','') = (j' mod 4 = 3)"
      using "1.prems" by (intro "1.IH") (auto simp: 5)
    moreover have "j mod 4 = j' mod 4" by (simp add: 5)
    ultimately show ?thesis by simp
  qed (use "1.prems" in auto)
qed (auto simp: nth_Cons')

lemma group_thousands_props:
  assumes "CHR '','' \<notin> set ds"
  shows "filter (\<lambda>c. c \<noteq> CHR '','') (group_thousands ds) = ds"
    and "length (group_thousands ds) = length ds + (length ds - 1) div 3"
    and "\<forall>j < length (group_thousands ds).
           (rev (group_thousands ds) ! j = CHR '','') = (j mod 4 = 3)"
proof -
  have c: "CHR '','' \<notin> set (rev ds)" using assms by simp
  have "filter (\<lambda>c. c \<noteq> CHR '','') (group_thousands ds) =
          rev (filter (\<lambda>c. c \<noteq> CHR '','') (commas_rev (rev ds)))"
    by (simp add: group_thousands_def rev_filter)
  then show "filter (\<lambda>c. c \<noteq> CHR '','') (group_thousands ds) = ds"
    by (simp add: commas_rev_filter [OF c])
  show "length (group_thousands ds) = length ds + (length ds - 1) div 3"
    by (simp add: group_thousands_def commas_rev_length)
  show "\<forall>j < length (group_thousands ds).
           (rev (group_thousands ds) ! j = CHR '','') = (j mod 4 = 3)"
    using commas_rev_nth [OF c] by (simp add: group_thousands_def)
qed

lemma target_sentence_template:
  assumes "subscript t ''year'' = Inr y" "subscript t ''revenue'' = Inr r"
    "subscript t ''customers'' = Inr c" "subscript t ''gross_margin'' = Inr g"
    "format_f0 True r = Inr rs" "bind_err (py_times_100 g) (format_f0 False) = Inr gs"
  shows "target_sentence t =
           Inr (''In '' @ py_str y @ '', we aim to generate $'' @ rs @ '' in revenue and serve ''
                  @ py_str c @ '' customers, achieving a gross margin of '' @ gs @ ''%'')"
  using assms
  by (auto simp: target_sentence_def bind_err_def split: sum.splits)


lemma rounding_vectors:
  "bind_err (py_times_100 (PFloat (Finite False 5764607523034235 (-60)))) (format_f0 False) = Inr ''0''"
  "bind_err (py_times_100 (PFloat (Finite False 1 (-3)))) (format_f0 False) = Inr ''12''"
  "bind_err (py_times_100 (PFloat (Finite False 3 (-3)))) (format_f0 False) = Inr ''38''"
  "bind_err (py_times_100 (PFloat (Finite False 5224175567749775 (-54)))) (format_f0 False) = Inr ''29''"
  "bind_err (py_times_100 (PFloat (Finite False 8962163258467287 (-53)))) (format_f0 False) = Inr ''100''"
  "format_f0 True (PFloat (Finite False 2469135 (-1))) = Inr ''1,234,568''"
  "format_f0 True (PFloat (Finite False 5000001 (-1))) = Inr ''2,500,000''"
  "format_f0 True (PInt (-1234567)) = Inr ''-1,234,567''"
  "format_f0 True (PInt 999) = Inr ''999''"
  "format_f0 True (PInt 1000) = Inr ''1,000''"
  by (simp_all add: value_eval float_eval)

lemma example_vectors:
  "bind_err (py_times_100 (PFloat float_0_35)) (format_f0 False) = Inr ''35''"
  "bind_err (py_times_100 (PFloat float_0_4)) (format_f0 False) = Inr ''40''"
  "format_f0 True (PInt 1000000) = Inr ''1,000,000''"
  "format_f0 True (PFloat (Finite False 1000000 0)) = Inr ''1,000,000''"
  "target_sentence [(''year'', PInt 2025), (''revenue'', PInt 1000000),
                    (''customers'', PInt 400), (''gross_margin'', PFloat float_0_35)]
     = Inr ''In 2025, we aim to generate $1,000,000 in revenue and serve 400 customers, achieving a gross margin of 35%''"
  "target_sentence [(''year'', PInt 2027), (''revenue'', PInt 1000000),
                    (''customers'', PInt 800), (''gross_margin'', PFloat float_0_4)]
     = Inr ''In 2027, we aim to generate $1,000,000 in revenue and serve 800 customers, achieving a gross margin of 40%''"
  by (simp_all add: target_sentence_def value_eval float_0_35_def float_0_4_def float_eval)

lemma more_float_literals:
  "nearest_double (Finite False 5764607523034235 (-60)) 5 1000"
  "nearest_double (Finite False 5224175567749775 (-54)) 29 100"
  "nearest_double (Finite False 8962163258467287 (-53)) 995 1000"
  by (simp_all add: nearest_double_def)

text \<open>
  C8: how the narrative renders numbers.
  \<^item> A gross margin that is a finite double \<open>m * 2^e\<close> is multiplied by 100 in double
    arithmetic (the product rounded to the nearest double) and rendered as the integer
    nearest to that product, ties to even, with no decimal point; the template appends
    \<open>%\<close>. An integer margin is multiplied exactly.
  \<^item> A revenue that is an integer below \<open>2^53\<close> in magnitude is rendered as its own
    decimal digits, one that is a finite double as the nearest integer; the digits are
    grouped in threes from the right by commas and the template puts \<open>$\<close> in front.
  \<^item> The decimal text denotes the number, consists of digits only, and the grouping adds
    exactly one comma before every complete group of three digits.
  \<^item> 0.35 gives \<open>35%\<close>, 0.4 gives \<open>40%\<close> and 1000000 gives \<open>$1,000,000\<close>; further
    inputs show the rounding at work (0.005 gives 0, 0.375 gives 38, 0.995 gives 100,
    1234567.5 gives 1,234,568, 2500000.5 gives 2,500,000).
\<close>

theorem narrative_number_formatting:
  "(m < 2 ^ 53 \<and> e \<le> 963 \<longrightarrow>
      (\<exists>m' e' n. float_mul_100 (Finite s m e) = Finite s m' e' \<and> product_100 m e m' e'
         \<and> rounds_to n m' e'
         \<and> bind_err (py_times_100 (PFloat (Finite s m e))) (format_f0 False) =
             Inr ((if s then ''-'' else []) @ nat_str n)))
   \<and> (\<bar>i * 100\<bar> < 2 ^ 53 \<longrightarrow>
        bind_err (py_times_100 (PInt i)) (format_f0 False) =
          Inr ((if i < 0 then ''-'' else []) @ nat_str (nat \<bar>i * 100\<bar>)))
   \<and> (\<bar>i\<bar> < 2 ^ 53 \<longrightarrow>
        format_f0 True (PInt i) =
          Inr ((if i < 0 then ''-'' else []) @ group_thousands (nat_str (nat \<bar>i\<bar>))))
   \<and> (\<exists>n. rounds_to n m e
          \<and> format_f0 True (PFloat (Finite s m e)) =
              Inr ((if s then ''-'' else []) @ group_thousands (nat_str n)))
   \<and> set (nat_str k) \<subseteq> set ''0123456789'' \<and> digits_value (nat_str k) = k
   \<and> filter (\<lambda>c. c \<noteq> CHR '','') (group_thousands (nat_str k)) = nat_str k
   \<and> length (group_thousands (nat_str k)) = length (nat_str k) + (length (nat_str k) - 1) div 3
   \<and> (\<forall>j < length (group_thousands (nat_str k)).
          (rev (group_thousands (nat_str k)) ! j = CHR '','') = (j mod 4 = 3))
   \<and> (subscript t ''year'' = Inr y \<and> subscript t ''revenue'' = Inr r
        \<and> subscript t ''customers'' = Inr c \<and> subscript t ''gross_margin'' = Inr g
        \<and> format_f0 True r = Inr rs \<and> bind_err (py_times_100 g) (format_f0 False) = Inr gs
       \<longrightarrow> target_sentence t =
             Inr (''In '' @ py_str y @ '', we aim to generate $'' @ rs @ '' in revenue and serve ''
                    @ py_str c @ '' customers, achieving a gross margin of '' @ gs @ ''%''))
   \<and> bind_err (py_times_100 (PFloat float_0_35)) (format_f0 False) = Inr ''35''
   \<and> bind_err (py_times_100 (PFloat float_0_4)) (format_f0 False) = Inr ''40''
   \<and> format_f0 True (PInt 1000000) = Inr ''1,000,000''
   \<and> format_f0 True (PFloat (Finite False 1000000 0)) = Inr ''1,000,000''
   \<and> target_sentence [(''year'', PInt 2025), (''revenue'', PInt 1000000),
                       (''customers'', PInt 400), (''gross_margin'', PFloat float_0_35)]
       = Inr ''In 2025, we aim to generate $1,000,000 in revenue and serve 400 customers, achieving a gross margin of 35%''
   \<and> target_sentence [(''year'', PInt 2027), (''revenue'', PInt 1000000),
                       (''customers'', PInt 800), (''gross_margin'', PFloat float_0_4)]
       = Inr ''In 2027, we aim to generate $1,000,000 in revenue and serve 800 customers, achieving a gross margin of 40%''
   \<and> bind_err (py_times_100 (PFloat (Finite False 5764607523034235 (-60)))) (format_f0 False) = Inr ''0''
   \<and> bind_err (py_times_100 (PFloat (Finite False 1 (-3)))) (format_f0 False) = Inr ''12''
   \<and> bind_err (py_times_100 (PFloat (Finite False 3 (-3)))) (format_f0 False) = Inr ''38''
   \<and> bind_err (py_times_100 (PFloat (Finite False 5224175567749775 (-54)))) (format_f0 False) = Inr ''29''
   \<and> bind_err (py_times_100 (PFloat (Finite False 8962163258467287 (-53)))) (format_f0 False) = Inr ''100''
   \<and> format_f0 True (PFloat (Finite False 2469135 (-1))) = Inr ''1,234,568''
   \<and> format_f0 True (PFloat (Finite False 5000001 (-1))) = Inr ''2,500,000''
   \<and> format_f0 True (PInt (-1234567)) = Inr ''-1,234,567''
   \<and> format_f0 True (PInt 999) = Inr ''999''
   \<and> format_f0 True (PInt 1000) = Inr ''1,000''"
proof -
  have c: "CHR '','' \<notin> set (nat_str k)" by (rule nat_str_digits(3))
  have tmpl: "subscript t ''year'' = Inr y \<and> subscript t ''revenue'' = Inr r
        \<and> subscript t ''customers'' = Inr c \<and> subscript t ''gross_margin'' = Inr g
        \<and> format_f0 True r = Inr rs \<and> bind_err (py_times_100 g) (format_f0 False) = Inr gs
       \<longrightarrow> target_sentence t =
             Inr (''In '' @ py_str y @ '', we aim to generate $'' @ rs @ '' in revenue and serve ''
                    @ py_str c @ '' customers, achieving a gross margin of '' @ gs @ ''%'')"
    using target_sentence_template [of t y r c g rs gs] by blast
  have fi: "\<bar>i\<bar> < 2 ^ 53 \<longrightarrow>
        format_f0 True (PInt i) =
          Inr ((if i < 0 then ''-'' else []) @ group_thousands (nat_str (nat \<bar>i\<bar>)))"
    using format_f0_int [of i True] by simp
  show ?thesis
    by (intro conjI impI margin_text_float margin_text_int revenue_text_float
          nat_str_digits(1,2) group_thousands_props [OF c] tmpl fi [rule_format]
          example_vectors rounding_vectors; (elim conjE)?; assumption?)
qed


theorem narrative_number_formatting_witness:
  "(6305039478318694::nat) < 2 ^ 53 \<and> (- 54::int) \<le> 963
   \<and> \<bar>(1000000::int) * 100\<bar> < 2 ^ 53 \<and> \<bar>1000000::int\<bar> < 2 ^ 53
   \<and> subscript [(''year'', PInt 2025), (''revenue'', PInt 1000000),
                  (''customers'', PInt 400), (''gross_margin'', PFloat float_0_35)] ''year''
       = Inr (PInt 2025)
   \<and> subscript [(''year'', PInt 2025), (''revenue'', PInt 1000000),
                  (''customers'', PInt 400), (''gross_margin'', PFloat float_0_35)] ''revenue''
       = Inr (PInt 1000000)
   \<and> subscript [(''year'', PInt 2025), (''revenue'', PInt 1000000),
                  (''customers'', PInt 400), (''gross_margin'', PFloat float_0_35)] ''customers''
       = Inr (PInt 400)
   \<and> subscript [(''year'', PInt 2025), (''revenue'', PInt 1000000),
                  (''customers'', PInt 400), (''gross_margin'', PFloat float_0_35)] ''gross_margin''
       = Inr (PFloat float_0_35)
   \<and> format_f0 True (PInt 1000000) = Inr ''1,000,000''
   \<and> bind_err (py_times_100 (PFloat float_0_35)) (format_f0 False) = Inr ''35''
   \<and> (\<exists>m' e' n. float_mul_100 (Finite False 6305039478318694 (- 54)) = Finite False m' e'
          \<and> product_100 6305039478318694 (- 54) m' e' \<and> rounds_to n m' e'
          \<and> bind_err (py_times_100 (PFloat (Finite False 6305039478318694 (- 54))))
                (format_f0 False) = Inr ([] @ nat_str n))
   \<and> bind_err (py_times_100 (PInt 1000000)) (format_f0 False) = Inr (nat_str 100000000)
   \<and> format_f0 True (PInt 1000000) = Inr (group_thousands (nat_str 1000000))
   \<and> target_sentence [(''year'', PInt 2025), (''revenue'', PInt 1000000),
                       (''customers'', PInt 400), (''gross_margin'', PFloat float_0_35)]
       = Inr (''In '' @ py_str (PInt 2025) @ '', we aim to generate $'' @ ''1,000,000''
                @ '' in revenue and serve '' @ py_str (PInt 400)
                @ '' customers, achieving a gross margin of '' @ ''35'' @ ''%'')"
proof -
  let ?t = "[(''year'', PInt 2025), (''revenue'', PInt 1000000),
             (''customers'', PInt 400), (''gross_margin'', PFloat float_0_35)]"
  note T = narrative_number_formatting
    [where m = 6305039478318694 and e = "- 54" and s = False and i = 1000000
       and t = ?t and y = "PInt 2025" and r = "PInt 1000000" and c = "PInt 400"
       and g = "PFloat float_0_35" and rs = "''1,000,000''" and gs = "''35''"]
  note T1 = T [THEN conjunct1, rule_format]
  note T2 = T [THEN conjunct2, THEN conjunct1, rule_format]
  note T3 = T [THEN conjunct2, THEN conjunct2, THEN conjunct1, rule_format]
  note T10 = T [THEN conjunct2, THEN conjunct2, THEN conjunct2, THEN conjunct2,
                THEN conjunct2, THEN conjunct2, THEN conjunct2, THEN conjunct2,
                THEN conjunct2, THEN conjunct1, rule_format]
  have h1: "(6305039478318694::nat) < 2 ^ 53 \<and> (- 54::int) \<le> 963" by simp
  have h2: "\<bar>(1000000::int) * 100\<bar> < 2 ^ 53" by simp
  have h3: "\<bar>1000000::int\<bar> < 2 ^ 53" by simp
  have h4: "subscript ?t ''year'' = Inr (PInt 2025) \<and> subscript ?t ''revenue'' = Inr (PInt 1000000)
        \<and> subscript ?t ''customers'' = Inr (PInt 400)
        \<and> subscript ?t ''gross_margin'' = Inr (PFloat float_0_35)
        \<and> format_f0 True (PInt 1000000) = Inr ''1,000,000''
        \<and> bind_err (py_times_100 (PFloat float_0_35)) (format_f0 False) = Inr ''35''"
    by (simp add: subscript_def example_vectors)
  from T1 [OF h1] have A: "\<exists>m' e' n. float_mul_100 (Finite False 6305039478318694 (- 54)) = Finite False m' e'
          \<and> product_100 6305039478318694 (- 54) m' e' \<and> rounds_to n m' e'
          \<and> bind_err (py_times_100 (PFloat (Finite False 6305039478318694 (- 54))))
                (format_f0 False) = Inr ([] @ nat_str n)"
    by simp
  from T2 [OF h2] have B: "bind_err (py_times_100 (PInt 1000000)) (format_f0 False) = Inr (nat_str 100000000)"
    by simp
  from T3 [OF h3] have C: "format_f0 True (PInt 1000000) = Inr (group_thousands (nat_str 1000000))"
    by simp
  from T10 [OF h4] have D: "target_sentence ?t
       = Inr (''In '' @ py_str (PInt 2025) @ '', we aim to generate $'' @ ''1,000,000''
                @ '' in revenue and serve '' @ py_str (PInt 400)
                @ '' customers, achieving a gross margin of '' @ ''35'' @ ''%'')"
    by simp
  from h1 h2 h3 h4 A B C D show ?thesis by (intro conjI) (simp_all only: simp_thms)
qed

section \<open>Milestones\<close>

lemma days_before_year_bounds:
  assumes "1 \<le> y" "y \<le> 9997"
  shows "0 \<le> days_before_year y" "days_before_year y \<le> 3650965"
  using assms by (simp_all add: days_before_year_def Let_def)

lemma date_new_jan1:
  "1 \<le> y \<Longrightarrow> y \<le> 9999 \<Longrightarrow> date_new y 1 1 = Inr \<lparr>year = y, month = 1, day = 1\<rparr>"
  by (simp add: date_new_def c_int_fits_def MINYEAR_def MAXYEAR_def days_in_month_def
        DAYS_IN_MONTH_def)

lemma ymd2ord_jan1: "ymd2ord y 1 1 = days_before_year y + 1"
  by (simp add: ymd2ord_def days_before_month_def DAYS_BEFORE_MONTH_def)

lemma date_add_jan1:
  assumes "1 \<le> y" "y \<le> 9997" "0 \<le> n" "n \<le> 1050"
  shows "date_add \<lparr>year = y, month = 1, day = 1\<rparr> n = Inr (ord2ymd (ymd2ord y 1 1 + n))"
  using days_before_year_bounds [OF assms(1,2)] assms(3,4)
  by (simp add: date_add_def toordinal_def ymd2ord_jan1 MAXORDINAL_def)

lemma milestones_loop_jan1:
  assumes "1 \<le> y" "y \<le> 9997" "\<forall>i\<in>set offsets. 0 \<le> i \<and> i \<le> 35"
  shows "milestones_loop \<lparr>year = y, month = 1, day = 1\<rparr> c offsets =
           Inr (map (\<lambda>i. (ord2ymd (ymd2ord y 1 1 + 30 * i),
                         milestone_name i c (year (ord2ymd (ymd2ord y 1 1 + 30 * i)) - y + 1)))
                  offsets)"
  using assms(3)
proof (induction offsets)
  case Nil
  then show ?case by simp
next
  case (Cons i rest)
  then have i: "0 \<le> 30 * i" "30 * i \<le> 1050" by auto
  have td: "timedelta_days (30 * i) = Inr (30 * i)"
    using i by (simp add: timedelta_days_def)
  show ?case
    using Cons date_add_jan1 [OF assms(1,2) i]
    by (simp add: bind_err_def td Let_def)
qed

lemma range_len_36:
  "range_len 0 36 c = (if 0 < c then nat (35 div c + 1) else 0)"
  by (simp add: range_len_def)

lemma py_range_36:
  "c \<noteq> 0 \<Longrightarrow> py_range 0 36 c =
     Inr (map (\<lambda>k. int k * c) [0..<(if 0 < c then nat (35 div c + 1) else 0)])"
  by (simp add: py_range_def range_len_36 total_months_def)

lemma offsets_in_range:
  assumes "0 < c" "k < nat (35 div c + 1)"
  shows "0 \<le> int k * c" "int k * c \<le> 35"
proof -
  show "0 \<le> int k * c" using assms(1) by simp
  have "int k \<le> 35 div c" using assms by linarith
  then have "int k * c \<le> (35 div c) * c"
    using assms(1) by (simp add: mult_right_mono)
  also have "\<dots> \<le> 35"
    using assms(1) by (metis div_mult_mod_eq add_increasing2 pos_mod_sign order_refl)
  finally show "int k * c \<le> 35" .
qed

lemma generate_milestones_default_ok:
  assumes "1 \<le> start_year self" "start_year self \<le> 9997"
  shows "\<exists>ms. generate_milestones self 6 = Inr ms \<and> length ms = 6"
proof -
  have b: "\<forall>i\<in>set [0, 6, 12, 18, 24, 30::int]. 0 \<le> i \<and> i \<le> 35" by simp
  have r: "py_range 0 36 6 = Inr [0, 6, 12, 18, 24, 30]"
    by (simp add: py_range_def range_len_def upt_rec)
  have "generate_milestones self 6 =
          milestones_loop \<lparr>year = start_year self, month = 1, day = 1\<rparr> 6 [0, 6, 12, 18, 24, 30]"
    using assms
    by (simp add: generate_milestones_def date_new_jan1 bind_err_def total_months_def r
          del: milestones_loop.simps)
  then show ?thesis
    by (simp only: milestones_loop_jan1 [OF assms b]) simp
qed

text \<open>
  C5, as amended: for every cadence \<open>c \<noteq> 0\<close> and every start year from 1 to 9997 the
  loop variable \<open>i\<close> runs over the month offsets \<open>0, c, 2c, ...\<close> below 36, so the
  milestone with number \<open>n = k + 1\<close> lies \<open>30 * (k * c)\<close> days after January 1 of the
  start year (not \<open>30 * k\<close> days), and its label is \<open>Milestone n - Year offset\<close> with
  \<open>offset\<close> the calendar year of that date minus the start year plus 1. A negative
  cadence gives no milestone.
\<close>

theorem generate_milestones_dates:
  assumes "c \<noteq> 0" "1 \<le> start_year self" "start_year self \<le> 9997"
  shows "generate_milestones self c =
           Inr (map (\<lambda>k. let dt = ord2ymd (ymd2ord (start_year self) 1 1 + 30 * (int k * c))
                          in (dt, ''Milestone '' @ int_str (int k + 1) @ '' '' @ en_dash @ '' Year ''
                                    @ int_str (year dt - start_year self + 1)))
                  [0..<(if 0 < c then nat (35 div c + 1) else 0)])"
proof -
  let ?offs = "map (\<lambda>k. int k * c) [0..<(if 0 < c then nat (35 div c + 1) else 0)]"
  have b: "\<forall>i\<in>set ?offs. 0 \<le> i \<and> i \<le> 35"
    using offsets_in_range by (auto split: if_splits)
  have n: "(int k * c) div c + 1 = int k + 1" for k
    using assms(1) by simp
  show ?thesis
    using assms
    by (simp add: generate_milestones_def date_new_jan1 bind_err_def total_months_def
          py_range_36 [OF assms(1)] milestones_loop_jan1 [OF assms(2,3) b]
          milestone_name_def Let_def comp_def n del: upt_Suc)
qed

theorem generate_milestones_dates_witness:
  "(6::int) \<noteq> 0 \<and> 1 \<le> start_year (acme 2025) \<and> start_year (acme 2025) \<le> 9997
   \<and> generate_milestones (acme 2025) 6 =
       Inr [(\<lparr>year = 2025, month = 1, day = 1\<rparr>, ''Milestone 1 '' @ en_dash @ '' Year 1''),
            (\<lparr>year = 2025, month = 6, day = 30\<rparr>, ''Milestone 2 '' @ en_dash @ '' Year 1''),
            (\<lparr>year = 2025, month = 12, day = 27\<rparr>, ''Milestone 3 '' @ en_dash @ '' Year 1''),
            (\<lparr>year = 2026, month = 6, day = 25\<rparr>, ''Milestone 4 '' @ en_dash @ '' Year 2''),
            (\<lparr>year = 2026, month = 12, day = 22\<rparr>, ''Milestone 5 '' @ en_dash @ '' Year 2''),
            (\<lparr>year = 2027, month = 6, day = 20\<rparr>, ''Milestone 6 '' @ en_dash @ '' Year 3'')]"
  using generate_milestones_dates [of 6 "acme 2025"]
  by (simp add: acme_def date_eval int_str_def nat_str.simps digit_char_def Let_def upt_rec)

text \<open>
  C5 as stated fails: a cadence of 0 raises \<open>ValueError\<close> instead of producing
  milestones, and with the default cadence the second milestone lies 180 days after the
  start (2025-06-30), not 30 days after it (2025-01-31).
\<close>

theorem generate_milestones_dates_counterexample:
  "generate_milestones (acme 2025) 0 = Inl ValueError
   \<and> map_sum id (map fst) (generate_milestones (acme 2025) 6) =
       Inr [\<lparr>year = 2025, month = 1, day = 1\<rparr>, \<lparr>year = 2025, month = 6, day = 30\<rparr>,
            \<lparr>year = 2025, month = 12, day = 27\<rparr>, \<lparr>year = 2026, month = 6, day = 25\<rparr>,
            \<lparr>year = 2026, month = 12, day = 22\<rparr>, \<lparr>year = 2027, month = 6, day = 20\<rparr>]
   \<and> date_add \<lparr>year = 2025, month = 1, day = 1\<rparr> (30 * 1) = Inr \<lparr>year = 2025, month = 1, day = 31\<rparr>"
  by (simp add: acme_def generate_milestones_def py_range_def range_len_def total_months_def
        bind_err_def date_eval Let_def upt_rec)

text \<open>
  C10, as amended: with the default cadence of 6 months, milestone generation returns
  exactly 6 entries for every start year from 1 to 9997.
\<close>

theorem generate_milestones_default_count:
  assumes "1 \<le> start_year self" "start_year self \<le> 9997"
  shows "\<exists>ms. generate_milestones self 6 = Inr ms \<and> length ms = 6"
  using generate_milestones_default_ok [OF assms] .

theorem generate_milestones_default_count_witness:
  "1 \<le> start_year (acme 2025) \<and> start_year (acme 2025) \<le> 9997
   \<and> (\<exists>ms. generate_milestones (acme 2025) 6 = Inr ms \<and> length ms = 6)"
  using generate_milestones_default_count [of "acme 2025"] by (simp add: acme_def)

text \<open>
  C10 as stated fails for start years at the end of the calendar: from January 1 of 9998
  the sixth milestone, 900 days later, is past December 31 of 9999 and the date addition
  raises \<open>OverflowError\<close>; a start year of 0 is rejected by \<open>datetime.date\<close>.
\<close>

theorem generate_milestones_default_count_counterexample:
  "generate_milestones (acme 9998) 6 = Inl OverflowError
   \<and> generate_milestones (acme 0) 6 = Inl ValueError"
  by (simp add: acme_def generate_milestones_def py_range_def range_len_def total_months_def
        bind_err_def date_eval Let_def upt_rec)

section \<open>Plan assembly\<close>

lemma map_of_dict_set:
  "map_of (dict_set k v d) k' = (if k' = k then Some v else map_of d k')"
  by (induction d) auto

lemma map_of_fold_dict_set:
  "map_of (fold (\<lambda>(m, vals). dict_set m (f vals)) ot base) k =
     (case map_of (rev ot) k of None \<Rightarrow> map_of base k | Some vals \<Rightarrow> Some (f vals))"
proof (induction ot arbitrary: base)
  case Nil
  then show ?case by simp
next
  case (Cons a ot)
  obtain m vals where a: "a = (m, vals)" by (cases a)
  show ?case
    by (simp add: a Cons map_of_dict_set map_add_def split: option.splits)
qed

lemma map_of_rev_distinct:
  "distinct (map fst xs) \<Longrightarrow> map_of (rev xs) = map_of xs"
  by (rule ext) (metis distinct_rev map_of_eq_Some_iff map_of_eq_None_iff not_None_eq rev_map set_rev)

lemma target_row_extra:
  assumes "distinct (map fst (other_targets self))" "(m, vals) \<in> set (other_targets self)"
  shows "subscript (target_row self yr) m = Inr (dict_get vals yr)"
proof -
  have "map_of (rev (other_targets self)) m = Some vals"
    using assms by (simp add: map_of_rev_distinct)
  then show ?thesis
    by (simp add: subscript_def target_row_def map_of_fold_dict_set)
qed

lemma map_of_target_row_fixed:
  assumes "k \<notin> fst ` set (other_targets self)"
  shows "map_of (target_row self yr) k =
           map_of [(''year'', PInt yr),
                   (''revenue'', dict_get (revenue_targets self) yr),
                   (''customers'', dict_get (customer_targets self) yr),
                   (''gross_margin'', dict_get (margin_targets self) yr)] k"
proof -
  have "map_of (rev (other_targets self)) k = None"
    using assms by (simp add: map_of_eq_None_iff)
  then show ?thesis
    by (simp add: target_row_def map_of_fold_dict_set)
qed

lemma target_row_fixed_keys:
  "''year'' \<notin> fst ` set (other_targets self)
     \<Longrightarrow> subscript (target_row self yr) ''year'' = Inr (PInt yr)"
  "''revenue'' \<notin> fst ` set (other_targets self)
     \<Longrightarrow> subscript (target_row self yr) ''revenue'' = Inr (dict_get (revenue_targets self) yr)"
  "''customers'' \<notin> fst ` set (other_targets self)
     \<Longrightarrow> subscript (target_row self yr) ''customers'' = Inr (dict_get (customer_targets self) yr)"
  "''gross_margin'' \<notin> fst ` set (other_targets self)
     \<Longrightarrow> subscript (target_row self yr) ''gross_margin'' = Inr (dict_get (margin_targets self) yr)"
  by (simp_all add: subscript_def map_of_target_row_fixed)

lemma dict_get_absent: "map_of d k = None \<Longrightarrow> dict_get d k = PNone"
  by (simp add: dict_get_def)

lemma plan_years_sorted: "sorted_wrt (<) (plan_years self)"
  by (simp add: plan_years_def strict_sorted_iff)

lemma set_plan_years:
  "set (plan_years self) =
     fst ` set (revenue_targets self) \<union> fst ` set (customer_targets self)
       \<union> fst ` set (margin_targets self)"
  by (auto simp: plan_years_def)

lemma build_plan_ok:
  assumes "1 \<le> start_year self" "start_year self \<le> 9997"
  shows "\<exists>p. build_plan self = Inr p
             \<and> strategic_targets p = map (target_row self) (plan_years self)"
  using generate_milestones_default_ok [OF assms]
  by (auto simp: build_plan_def bind_err_def Let_def)





text \<open>
  C1, as amended: for every agent whose start year lies in 1..9997 (so that the milestones
  can be dated) and that has no extra metric called \<open>year\<close>, assembly succeeds and the
  years of the rows of the target table are, in order, the years appearing in the
  revenue, customer and margin mappings, strictly ascending and without duplicates. The
  years of \<open>other_targets\<close> do not enter: a year that appears only in an extra metric
  gets no row.
\<close>

theorem build_plan_years:
  assumes "1 \<le> start_year self" "start_year self \<le> 9997"
    and "''year'' \<notin> fst ` set (other_targets self)"
  shows "\<exists>p. build_plan self = Inr p
           \<and> map (\<lambda>t. subscript t ''year'') (strategic_targets p)
               = map (\<lambda>y. Inr (PInt y)) (plan_years self)
           \<and> sorted_wrt (<) (plan_years self)
           \<and> set (plan_years self) =
               fst ` set (revenue_targets self) \<union> fst ` set (customer_targets self)
                 \<union> fst ` set (margin_targets self)"
proof -
  obtain p where p: "build_plan self = Inr p"
    "strategic_targets p = map (target_row self) (plan_years self)"
    using build_plan_ok [OF assms(1,2)] by blast
  have "subscript (target_row self y) ''year'' = Inr (PInt y)" for y
    by (rule target_row_fixed_keys(1) [OF assms(3)])
  then show ?thesis
    using p by (simp add: plan_years_sorted set_plan_years)
qed

text \<open>
  C7: in every row of the assembled target table, a metric with no value for the row's
  year in its source mapping is stored as \<open>None\<close> (\<open>PNone\<close>), which is not the number
  zero. This holds for every extra metric and for revenue, customers and gross margin
  (for these three, when no extra metric of the same name overwrites the field).
\<close>

theorem absent_metric_is_None:
  assumes "1 \<le> start_year self" "start_year self \<le> 9997"
    and "distinct (map fst (other_targets self))"
  shows "\<exists>p. build_plan self = Inr p
           \<and> length (strategic_targets p) = length (plan_years self)
           \<and> (\<forall>i < length (plan_years self).
                 let y = plan_years self ! i; t = strategic_targets p ! i
                 in (\<forall>m vals. (m, vals) \<in> set (other_targets self) \<and> map_of vals y = None
                       \<longrightarrow> subscript t m = Inr PNone)
                  \<and> (''revenue'' \<notin> fst ` set (other_targets self)
                        \<and> map_of (revenue_targets self) y = None
                       \<longrightarrow> subscript t ''revenue'' = Inr PNone)
                  \<and> (''customers'' \<notin> fst ` set (other_targets self)
                        \<and> map_of (customer_targets self) y = None
                       \<longrightarrow> subscript t ''customers'' = Inr PNone)
                  \<and> (''gross_margin'' \<notin> fst ` set (other_targets self)
                        \<and> map_of (margin_targets self) y = None
                       \<longrightarrow> subscript t ''gross_margin'' = Inr PNone))"
proof -
  obtain p where p: "build_plan self = Inr p"
    "strategic_targets p = map (target_row self) (plan_years self)"
    using build_plan_ok [OF assms(1,2)] by blast
  show ?thesis
    using p
    by (auto simp: Let_def target_row_extra [OF assms(3)] target_row_fixed_keys
          dict_get_absent)
qed

text \<open>
  C6, as amended: plan assembly does not look at the type of a target value. For every
  agent whose start year lies in 1..9997 it succeeds, and every row holds, for each extra
  metric and for revenue, customers and gross margin, exactly the value its source mapping
  gives for the year (a string stays that string).
\<close>

theorem build_plan_no_validation:
  assumes "1 \<le> start_year self" "start_year self \<le> 9997"
    and "distinct (map fst (other_targets self))"
  shows "\<exists>p. build_plan self = Inr p
           \<and> length (strategic_targets p) = length (plan_years self)
           \<and> (\<forall>i < length (plan_years self).
                 let y = plan_years self ! i; t = strategic_targets p ! i
                 in (\<forall>m vals. (m, vals) \<in> set (other_targets self)
                       \<longrightarrow> subscript t m = Inr (dict_get vals y))
                  \<and> (''revenue'' \<notin> fst ` set (other_targets self)
                       \<longrightarrow> subscript t ''revenue'' = Inr (dict_get (revenue_targets self) y))
                  \<and> (''customers'' \<notin> fst ` set (other_targets self)
                       \<longrightarrow> subscript t ''customers'' = Inr (dict_get (customer_targets self) y))
                  \<and> (''gross_margin'' \<notin> fst ` set (other_targets self)
                       \<longrightarrow> subscript t ''gross_margin'' = Inr (dict_get (margin_targets self) y)))"
proof -
  obtain p where p: "build_plan self = Inr p"
    "strategic_targets p = map (target_row self) (plan_years self)"
    using build_plan_ok [OF assms(1,2)] by blast
  show ?thesis
    using p
    by (auto simp: Let_def target_row_extra [OF assms(3)] target_row_fixed_keys)
qed

section \<open>Plan assembly on the examples\<close>

lemma build_plan_rows:
  assumes "1 \<le> start_year self" "start_year self \<le> 9997"
  shows "map_sum id strategic_targets (build_plan self) =
           Inr (map (target_row self) (plan_years self))"
  using build_plan_ok [OF assms] by auto

lemmas example_agents =
  acme_def acme_gap_def acme_extra_year_def acme_text_revenue_def acme_no_swot_def

lemmas row_eval = plan_years_def target_row_def dict_get_def

theorem build_plan_years_witness:
  "1 \<le> start_year acme_extra_year \<and> start_year acme_extra_year \<le> 9997
   \<and> ''year'' \<notin> fst ` set (other_targets acme_extra_year)
   \<and> plan_years acme_extra_year = [2025]
   \<and> (\<exists>p. build_plan acme_extra_year = Inr p
            \<and> map (\<lambda>t. subscript t ''year'') (strategic_targets p) = [Inr (PInt 2025)])"
  using build_plan_years [of acme_extra_year]
  by (simp add: example_agents plan_years_def)

text \<open>
  C1 as stated fails: with a net profit target for 2025 and 2026 and all other targets
  for 2025 only, the table has the single row of 2025; no row is made for 2026.
\<close>

theorem build_plan_years_counterexample:
  "map_sum id strategic_targets (build_plan acme_extra_year) =
     Inr [[(''year'', PInt 2025), (''revenue'', PInt 1000000), (''customers'', PInt 100),
           (''gross_margin'', PFloat float_0_2), (''net_profit'', PInt 500000)]]
   \<and> dict_get [(2025, PInt 500000), (2026, PInt 750000)] (2026::int) = PInt 750000"
proof -
  have "1 \<le> start_year acme_extra_year" "start_year acme_extra_year \<le> 9997"
    by (simp_all add: example_agents)
  from build_plan_rows [OF this] show ?thesis
    by (simp add: example_agents row_eval)
qed

theorem absent_metric_is_None_witness:
  "1 \<le> start_year acme_gap \<and> start_year acme_gap \<le> 9997
   \<and> distinct (map fst (other_targets acme_gap))
   \<and> plan_years acme_gap = [2025, 2026]
   \<and> (''net_profit'', [(2025, PInt 500000)]) \<in> set (other_targets acme_gap)
   \<and> map_of [(2025::int, PInt 500000)] 2026 = None
   \<and> (\<exists>p. build_plan acme_gap = Inr p
            \<and> subscript (strategic_targets p ! 1) ''net_profit'' = Inr PNone)"
  using absent_metric_is_None [of acme_gap]
  by (auto simp: example_agents plan_years_def Let_def)

theorem build_plan_no_validation_witness:
  "1 \<le> start_year acme_text_revenue \<and> start_year acme_text_revenue \<le> 9997
   \<and> distinct (map fst (other_targets acme_text_revenue))
   \<and> ''revenue'' \<notin> fst ` set (other_targets acme_text_revenue)
   \<and> (\<exists>p. build_plan acme_text_revenue = Inr p
            \<and> subscript (strategic_targets p ! 0) ''revenue'' = Inr (PStr ''one million''))"
  using build_plan_no_validation [of acme_text_revenue]
  by (auto simp: example_agents row_eval Let_def)

text \<open>
  C6 as stated fails: a revenue target that is a string is not rejected by assembly; it is
  stored in the row as it is.
\<close>

theorem build_plan_no_validation_counterexample:
  "map_sum id strategic_targets (build_plan acme_text_revenue) =
     Inr [[(''year'', PInt 2025), (''revenue'', PStr ''one million''), (''customers'', PInt 100),
           (''gross_margin'', PFloat float_0_2)]]"
proof -
  have "1 \<le> start_year acme_text_revenue" "start_year acme_text_revenue \<le> 9997"
    by (simp_all add: example_agents)
  from build_plan_rows [OF this] show ?thesis
    by (simp add: example_agents row_eval)
qed

section \<open>The narrative\<close>

















section \<open>The narrative on the examples\<close>

lemma generate_narrative_eval:
  assumes "1 \<le> start_year self" "start_year self \<le> 9997"
  shows "generate_narrative self =
           bind_err (targets_paragraph (map (target_row self) (plan_years self))) (\<lambda>tp.
           bind_err (swot_paragraph self) (\<lambda>sp.
             Inr (join [CHR 0x0A, CHR 0x0A]
                    [intro self, tp, moves_paragraph self, sp, execution_paragraph,
                     closing self])))"
  using build_plan_ok [OF assms] by (auto simp: generate_narrative_def bind_err_def)

lemmas narrative_eval =
  targets_paragraph_def target_line_def target_sentence_def fixed_keys_def replace_char_def
  value_eval float_eval float_0_2_def float_0_35_def float_0_4_def

lemma acme_targets_paragraph:
  "targets_paragraph (map (target_row (acme sy)) (plan_years (acme sy))) =
     Inr ''In 2025, we aim to generate $1,000,000 in revenue and serve 100 customers, achieving a gross margin of 20%.''"
  by (simp add: acme_def row_eval narrative_eval)





text \<open>
  C9: for the end-to-end scenario, whatever the start year from 1 to 9997 (the scenario
  leaves it to the current year), the assembled table has exactly one row, for 2025, with
  revenue 1000000, 100 customers and margin 0.2; the targets paragraph is the sentence
  \<open>In 2025, we aim to generate $1,000,000 in revenue and serve 100 customers, achieving a
  gross margin of 20%\<close> followed by a full stop, and it is the second paragraph of the
  narrative that is returned.
\<close>

theorem acme_end_to_end:
  assumes "1 \<le> sy" "sy \<le> 9997"
  shows "\<exists>p. build_plan (acme sy) = Inr p
           \<and> strategic_targets p =
               [[(''year'', PInt 2025), (''revenue'', PInt 1000000), (''customers'', PInt 100),
                 (''gross_margin'', PFloat float_0_2)]]
           \<and> targets_paragraph (strategic_targets p) =
               Inr ''In 2025, we aim to generate $1,000,000 in revenue and serve 100 customers, achieving a gross margin of 20%.''
           \<and> generate_narrative (acme sy) =
               Inr (''Acme exists to build widgets.  Our vision is to best widgets. To achieve this ambition, we have created a three''
                    @ nb_hyphen @ ''year strategic plan grounded in our core values: Integrity.''
                    @ [CHR 0x0A, CHR 0x0A]
                    @ ''In 2025, we aim to generate $1,000,000 in revenue and serve 100 customers, achieving a gross margin of 20%.''
                    @ [CHR 0x0A, CHR 0x0A]
                    @ ''To realise these goals, we will pursue a focused set of Winning Moves. On the revenue side we will: Launch X. On the profitability side we will: Cut costs.''
                    @ [CHR 0x0A, CHR 0x0A]
                    @ ''Our SWOT analysis reveals that our strengths'' @ em_dash @ ''brand'' @ em_dash
                    @ ''position us well to capitalise on opportunities such as market growth.  However, we must mitigate weaknesses like small team and guard against threats such as competition.''
                    @ [CHR 0x0A, CHR 0x0A]
                    @ execution_paragraph
                    @ [CHR 0x0A, CHR 0x0A]
                    @ ''By aligning our team around this roadmap and measuring our progress relentlessly, Acme will be well positioned to achieve its three''
                    @ nb_hyphen @ ''year objectives and move closer to its long'' @ nb_hyphen
                    @ ''term vision.'')"
proof -
  have sy: "1 \<le> start_year (acme sy)" "start_year (acme sy) \<le> 9997"
    using assms by (simp_all add: acme_def)
  obtain p where p: "build_plan (acme sy) = Inr p"
    "strategic_targets p = map (target_row (acme sy)) (plan_years (acme sy))"
    using build_plan_ok [OF sy] by blast
  have rows: "map (target_row (acme sy)) (plan_years (acme sy)) =
               [[(''year'', PInt 2025), (''revenue'', PInt 1000000), (''customers'', PInt 100),
                 (''gross_margin'', PFloat float_0_2)]]"
    by (simp add: acme_def row_eval)
  have tp: "targets_paragraph (strategic_targets p) =
               Inr ''In 2025, we aim to generate $1,000,000 in revenue and serve 100 customers, achieving a gross margin of 20%.''"
    unfolding p(2) by (rule acme_targets_paragraph)
  have sp: "swot_paragraph (acme sy) =
      Inr (''Our SWOT analysis reveals that our strengths'' @ em_dash @ ''brand'' @ em_dash
            @ ''position us well to capitalise on opportunities such as market growth.  However, we must mitigate weaknesses like small team and guard against threats such as competition.'')"
    by (simp add: swot_paragraph_def acme_def dict_get_default_def)
  have i: "intro (acme sy) = ''Acme exists to build widgets.  Our vision is to best widgets. To achieve this ambition, we have created a three''
                    @ nb_hyphen @ ''year strategic plan grounded in our core values: Integrity.''"
    by (simp add: intro_def acme_def)
  have m: "moves_paragraph (acme sy) = ''To realise these goals, we will pursue a focused set of Winning Moves. On the revenue side we will: Launch X. On the profitability side we will: Cut costs.''"
    by (simp add: moves_paragraph_def acme_def)
  have c: "closing (acme sy) = ''By aligning our team around this roadmap and measuring our progress relentlessly, Acme will be well positioned to achieve its three''
                    @ nb_hyphen @ ''year objectives and move closer to its long'' @ nb_hyphen
                    @ ''term vision.''"
    by (simp add: closing_def acme_def)
  have n: "generate_narrative (acme sy) =
             Inr (join [CHR 0x0A, CHR 0x0A]
                    [intro (acme sy),
                     ''In 2025, we aim to generate $1,000,000 in revenue and serve 100 customers, achieving a gross margin of 20%.'',
                     moves_paragraph (acme sy),
                     ''Our SWOT analysis reveals that our strengths'' @ em_dash @ ''brand'' @ em_dash
            @ ''position us well to capitalise on opportunities such as market growth.  However, we must mitigate weaknesses like small team and guard against threats such as competition.'',
                     execution_paragraph, closing (acme sy)])"
    by (simp only: generate_narrative_eval [OF sy] acme_targets_paragraph sp bind_err_def sum.case)
  show ?thesis
    using p(1) tp
    by (simp add: p(2) rows n i m c)
qed

theorem acme_end_to_end_witness:
  "(1::int) \<le> 2025 \<and> (2025::int) \<le> 9997
   \<and> (\<exists>p. build_plan (acme 2025) = Inr p
          \<and> strategic_targets p =
               [[(''year'', PInt 2025), (''revenue'', PInt 1000000), (''customers'', PInt 100),
                 (''gross_margin'', PFloat float_0_2)]]
          \<and> targets_paragraph (strategic_targets p) =
               Inr ''In 2025, we aim to generate $1,000,000 in revenue and serve 100 customers, achieving a gross margin of 20%.'')"
  using acme_end_to_end [of 2025] by auto

end
